theory Spec2Isabelle
  imports Main "HOL-Library.Word"
begin

section \<open>Utility functions (util.go)\<close>

text \<open>
  Go strings are byte sequences; they are modelled as \<^typ>\<open>string\<close> (a list of 8-bit
  characters). \<^verbatim>\<open>strings.Split(s, " ")\<close> is only ever called with the one-byte separator
  \<^verbatim>\<open>" "\<close>, so \<open>Split\<close> takes the separator as a character. For a non-empty separator
  Go returns the \<open>n + 1\<close> pieces between the \<open>n\<close> occurrences of the separator, so the
  result is never empty.
\<close>

fun Split :: "string \<Rightarrow> char \<Rightarrow> string list" where
  "Split [] sep = [[]]"
| "Split (c # cs) sep =
     (if c = sep then [] # Split cs sep
      else (case Split cs sep of
              [] \<Rightarrow> [[c]]
            | p # ps \<Rightarrow> (c # p) # ps))"

text \<open>
  \<^verbatim>\<open>extractModelIdFromAlphaIndexValue\<close>: alpha index members are stored as
  \<^verbatim>\<open>"<fieldValue> <modelId>"\<close>; the id is the last piece of the split
  (\<^verbatim>\<open>slices[len(slices)-1]\<close>, in range because the split is never empty).
\<close>

definition extractModelIdFromAlphaIndexValue :: "string \<Rightarrow> string" where
  "extractModelIdFromAlphaIndexValue valueAndId =
     (let slices = Split valueAndId (CHR '' '') in last slices)"

text \<open>
  \<^verbatim>\<open>orderedIntersectStrings\<close>: a memo map is filled from the second slice, then the first
  slice is walked in order and every element found in the memo is appended to a fresh
  result slice. Both arguments are only read.
\<close>

definition memoOf :: "string list \<Rightarrow> (string \<rightharpoonup> unit)" where
  "memoOf second = foldl (\<lambda>memo a. memo(a \<mapsto> ())) Map.empty second"

definition orderedIntersectStrings :: "string list \<Rightarrow> string list \<Rightarrow> string list" where
  "orderedIntersectStrings first second =
     (let memo = memoOf second
      in foldl (\<lambda>results a. if memo a \<noteq> None then results @ [a] else results) [] first)"

text \<open>
  The loop \<^verbatim>\<open>for _, ids := range ... { final = orderedIntersectStrings(final, ids) }\<close>
  of \<^verbatim>\<open>getIdsWithFilters\<close>: the running result is intersected with each list in turn.
\<close>

definition intersectAll :: "string list \<Rightarrow> string list list \<Rightarrow> string list" where
  "intersectAll final idSetsSlice = foldl orderedIntersectStrings final idSetsSlice"

text \<open>
  The in-place reversal loop used by \<^verbatim>\<open>filter.getIds\<close>:
  \<^verbatim>\<open>for i, j := 0, len(ids)-1; i <= j; i, j = i+1, j-1 { ids[i], ids[j] = ids[j], ids[i] }\<close>.
  The indices are Go ints (\<open>j\<close> starts at \<open>-1\<close> for an empty slice).
\<close>

function reverseLoop :: "int \<Rightarrow> int \<Rightarrow> 'a list \<Rightarrow> 'a list" where
  "reverseLoop i j ids =
     (if i \<le> j
      then reverseLoop (i + 1) (j - 1) (ids[nat i := ids ! nat j, nat j := ids ! nat i])
      else ids)"
  by pat_completeness auto
termination
  by (relation "measure (\<lambda>(i, j, ids). nat (j - i + 1))") auto

definition reverseInPlace :: "'a list \<Rightarrow> 'a list" where
  "reverseInPlace ids = reverseLoop 0 (int (length ids) - 1) ids"

text \<open>\<^verbatim>\<open>removeElementFromStringSlice\<close>: drops the first occurrence of the element.\<close>

fun removeElementFromStringSlice :: "string list \<Rightarrow> string \<Rightarrow> string list" where
  "removeElementFromStringSlice [] elem = []"
| "removeElementFromStringSlice (e # list) elem =
     (if e = elem then list else e # removeElementFromStringSlice list elem)"

section \<open>Go types and values seen through reflection\<close>

text \<open>
  The part of Go's type universe the library inspects: the kinds it tests for
  (pointer, struct, slice, array, string, bool, byte) and representative numeric kinds.
  A struct type carries its name and its fields; a field carries its name, its type and
  the two struct tags \<^verbatim>\<open>redis\<close> and \<^verbatim>\<open>redisType\<close> read by \<^verbatim>\<open>compileModelSpec\<close>.
\<close>

datatype gotype =
    TBool | TInt | TUint8 | TFloat64 | TString
  | TPtr gotype
  | TSlice gotype
  | TArray nat gotype
  | TStruct string "structField list"
and structField =
    StructField (sfName: string) (sfType: gotype) (tagRedis: string) (tagRedisType: string)

datatype Kind = KBool | KInt | KUint8 | KFloat64 | KString | KPtr | KSlice | KArray | KStruct
  | KInvalid

fun kindOf :: "gotype \<Rightarrow> Kind" where
  "kindOf TBool = KBool"
| "kindOf TInt = KInt"
| "kindOf TUint8 = KUint8"
| "kindOf TFloat64 = KFloat64"
| "kindOf TString = KString"
| "kindOf (TPtr t) = KPtr"
| "kindOf (TSlice t) = KSlice"
| "kindOf (TArray n t) = KArray"
| "kindOf (TStruct n fs) = KStruct"

text \<open>\<^verbatim>\<open>Type.Elem()\<close> panics unless the kind is pointer, slice or array (of the kinds here).\<close>

fun Elem :: "gotype \<Rightarrow> gotype option" where
  "Elem (TPtr t) = Some t"
| "Elem (TSlice t) = Some t"
| "Elem (TArray n t) = Some t"
| "Elem t = None"

text \<open>
  Values passed as \<^verbatim>\<open>interface{}\<close> to the query modifiers: booleans, integers, strings,
  typed nil pointers and pointers to values.
\<close>

datatype goval = VBool bool | VInt int | VStr string | VNilPtr gotype | VPtrTo goval

fun TypeOf :: "goval \<Rightarrow> gotype" where
  "TypeOf (VBool b) = TBool"
| "TypeOf (VInt i) = TInt"
| "TypeOf (VStr s) = TString"
| "TypeOf (VNilPtr t) = TPtr t"
| "TypeOf (VPtrTo v) = TPtr (TypeOf v)"

text \<open>\<^verbatim>\<open>typeIsSliceOrArray\<close> (util.go).\<close>

definition typeIsSliceOrArray :: "gotype \<Rightarrow> bool" where
  "typeIsSliceOrArray typ =
     (let k = kindOf typ
      in (k = KSlice \<or> k = KArray) \<and> map_option kindOf (Elem typ) \<noteq> Some KUint8)"


section \<open>Errors\<close>

text \<open>
  One constructor per error the code creates; the strings of \<^verbatim>\<open>fmt.Sprintf\<close> messages are
  kept as the arguments they are built from. \<open>Panic\<close> stands for a Go run-time panic,
  \<open>StoreError\<close> for an error reported by the store or the connection.
\<close>

datatype error =
    ModelNameNotRegisteredError string
  | ModelTypeNotRegisteredError gotype
  | TypeAlreadyRegisteredError gotype
  | NameAlreadyRegisteredError string
  | ErrSchemaNotPointerToStruct
  | ErrInvalidRedisTypeTag string
  | ErrOrderAlreadySpecified
  | ErrOrderNotIndexed string
  | ErrOrderFieldNotFound string
  | ErrIncludeExclude
  | ErrFilterStringSpaces
  | ErrInvalidOperator
  | ErrFilterFieldNotFound string
  | ErrFilterNotIndexed string
  | ErrFilterNilPointer
  | ErrFilterTypeMismatch gotype gotype
  | ErrIdOperator
  | ErrIdNotString Kind
  | ErrScanNotSlice
  | ErrScanNotModelPointers
  | ErrScanWrongModelType
  | ErrOffsetWithoutOrder
  | ErrOperatorOutOfRange
  | ErrUnindexedFilter string string
  | ErrNil
  | ErrUnexpectedReply
  | ErrRange
  | StoreError string
  | Panic string

section \<open>Model registration (model.go)\<close>

record externalSet =
  redisName :: string
  fieldName :: string

record externalList =
  redisName :: string
  fieldName :: string

text \<open>
  Index kinds. \<open>indexNone\<close> is the value of a field that is not indexed; the three others
  are the constants \<^verbatim>\<open>indexNumeric\<close>, \<^verbatim>\<open>indexAlpha\<close> and \<^verbatim>\<open>indexBoolean\<close> that
  \<^verbatim>\<open>filter.getIds\<close> switches on.
\<close>

datatype indexType = indexNone | indexNumeric | indexAlpha | indexBoolean

text \<open>
  Modelled from the spec: the per-field index catalog entry
  \<open>{fieldName, storeKeyName, indexKind}\<close> of a registered model, together with the field's
  declared type. The declaration of the catalog and of its three lookups (\<^verbatim>\<open>field\<close>,
  \<^verbatim>\<open>redisNameForFieldName\<close>, \<^verbatim>\<open>indexTypeForField\<close>) is not part of the sources at hand.
\<close>

record IndexEntry =
  fieldName :: string
  storeKeyName :: string
  indexKind :: indexType
  declaredType :: gotype

text \<open>
  \<^verbatim>\<open>modelSpec\<close>: the fields \<open>sets\<close>, \<open>lists\<close> and \<open>fieldNames\<close> are those of model.go;
  \<open>modelName\<close>, \<open>modelType\<close> and the catalog are the ones the query code reads.
\<close>

record modelSpec =
  modelName :: string
  modelType :: gotype
  sets :: "externalSet list"
  lists :: "externalList list"
  fieldNames :: "string list"
  catalog :: "IndexEntry list"

text \<open>The zero value \<^verbatim>\<open>modelSpec{}\<close>; the zero \<^verbatim>\<open>reflect.Type\<close> is nil, shown here as a
  struct type without name and fields.\<close>

definition emptyModelSpec :: modelSpec where
  "emptyModelSpec =
     \<lparr>modelName = [], modelType = TStruct [] [], sets = [], lists = [], fieldNames = [],
      catalog = []\<rparr>"

text \<open>Modelled from the spec: \<open>fieldExists\<close>, \<open>storeKeyFor\<close> and \<open>indexKindOf\<close> of the
  index catalog, with the \<open>(value, found)\<close> result shape their callers use.\<close>

definition field :: "modelSpec \<Rightarrow> string \<Rightarrow> IndexEntry option" where
  "field ms name = find (\<lambda>e. IndexEntry.fieldName e = name) (catalog ms)"

definition redisNameForFieldName :: "modelSpec \<Rightarrow> string \<Rightarrow> string option" where
  "redisNameForFieldName ms name = map_option storeKeyName (field ms name)"

definition indexTypeForField :: "modelSpec \<Rightarrow> string \<Rightarrow> indexType \<times> bool" where
  "indexTypeForField ms name =
     (case field ms name of
        None \<Rightarrow> (indexNone, False)
      | Some e \<Rightarrow> (indexKind e, indexKind e \<noteq> indexNone))"

text \<open>The three global registries of model.go, as one state record.\<close>

record registry =
  typeToName :: "gotype \<rightharpoonup> string"
  nameToType :: "string \<rightharpoonup> gotype"
  modelSpecs :: "string \<rightharpoonup> modelSpec"

definition emptyRegistry :: registry where
  "emptyRegistry = \<lparr>typeToName = Map.empty, nameToType = Map.empty, modelSpecs = Map.empty\<rparr>"

definition alreadyRegisteredName :: "registry \<Rightarrow> string \<Rightarrow> bool" where
  "alreadyRegisteredName reg n = (nameToType reg n \<noteq> None)"

definition alreadyRegisteredType :: "registry \<Rightarrow> gotype \<Rightarrow> bool" where
  "alreadyRegisteredType reg t = (typeToName reg t \<noteq> None)"

text \<open>
  \<^verbatim>\<open>compileModelSpec\<close>: the loop over the struct's fields. Every field other than
  \<^verbatim>\<open>DefaultData\<close> is recorded in \<open>fieldNames\<close>; a slice or array field becomes an external
  list or set according to its \<^verbatim>\<open>redisType\<close> tag, is skipped when its \<^verbatim>\<open>redis\<close> tag is
  \<^verbatim>\<open>"-"\<close>, and any other \<^verbatim>\<open>redisType\<close> aborts with an error.
\<close>

fun compileFields :: "structField list \<Rightarrow> modelSpec \<Rightarrow> error + modelSpec" where
  "compileFields [] ms = Inr ms"
| "compileFields (f # fs) ms =
     (let ms1 = (if sfName f \<noteq> ''DefaultData''
                 then ms\<lparr>fieldNames := fieldNames ms @ [sfName f]\<rparr> else ms)
      in if typeIsSliceOrArray (sfType f) then
           (if tagRedis f = ''-'' then compileFields fs ms1
            else
              (let redisName = (if tagRedis f = [] then sfName f else tagRedis f);
                   redisType = tagRedisType f
               in if redisType = [] \<or> redisType = ''list'' then
                    compileFields fs
                      (ms1\<lparr>lists := lists ms1 @
                         [\<lparr>externalList.redisName = redisName,
                           externalList.fieldName = sfName f\<rparr>]\<rparr>)
                  else if redisType = ''set'' then
                    compileFields fs
                      (ms1\<lparr>sets := sets ms1 @
                         [\<lparr>externalSet.redisName = redisName,
                           externalSet.fieldName = sfName f\<rparr>]\<rparr>)
                  else Inl (ErrInvalidRedisTypeTag redisType)))
         else compileFields fs ms1)"

text \<open>\<^verbatim>\<open>typ.Elem()\<close> of the pointer type, then its fields; \<^verbatim>\<open>NumField\<close> panics on a
  non-struct.\<close>

definition compileModelSpec :: "gotype \<Rightarrow> modelSpec \<Rightarrow> error + modelSpec" where
  "compileModelSpec typ ms =
     (case Elem typ of
        Some (TStruct n fs) \<Rightarrow> compileFields fs ms
      | _ \<Rightarrow> Inl (Panic ''reflect: NumField of non-struct type''))"

text \<open>
  \<^verbatim>\<open>Register(in, name)\<close>, with \<open>typ\<close> standing for \<^verbatim>\<open>reflect.TypeOf(in)\<close>. On success
  all three registries receive an entry.
\<close>

definition Register :: "gotype \<Rightarrow> string \<Rightarrow> registry \<Rightarrow> error + registry" where
  "Register typ name reg =
     (if kindOf typ \<noteq> KPtr then Inl ErrSchemaNotPointerToStruct
      else if map_option kindOf (Elem typ) \<noteq> Some KStruct then Inl ErrSchemaNotPointerToStruct
      else if alreadyRegisteredType reg typ then Inl (TypeAlreadyRegisteredError typ)
      else if alreadyRegisteredName reg name then Inl (NameAlreadyRegisteredError name)
      else
        (case compileModelSpec typ emptyModelSpec of
           Inl err \<Rightarrow> Inl err
         | Inr ms \<Rightarrow>
             Inr (reg\<lparr>typeToName := (typeToName reg)(typ \<mapsto> name),
                      nameToType := (nameToType reg)(name \<mapsto> typ),
                      modelSpecs := (modelSpecs reg)(name \<mapsto> ms)\<rparr>)))"

text \<open>\<^verbatim>\<open>UnregisterName\<close> and \<^verbatim>\<open>UnregisterType\<close>: two \<^verbatim>\<open>delete\<close> calls each.\<close>

definition UnregisterName :: "string \<Rightarrow> registry \<Rightarrow> error + registry" where
  "UnregisterName name reg =
     (case nameToType reg name of
        None \<Rightarrow> Inl (ModelNameNotRegisteredError name)
      | Some typ \<Rightarrow>
          Inr (reg\<lparr>nameToType := (nameToType reg)(name := None),
                   typeToName := (typeToName reg)(typ := None)\<rparr>))"

definition UnregisterType :: "gotype \<Rightarrow> registry \<Rightarrow> error + registry" where
  "UnregisterType typ reg =
     (case typeToName reg typ of
        None \<Rightarrow> Inl (ModelTypeNotRegisteredError typ)
      | Some name \<Rightarrow>
          Inr (reg\<lparr>nameToType := (nameToType reg)(name := None),
                   typeToName := (typeToName reg)(typ := None)\<rparr>))"

definition getRegisteredNameFromInterface :: "registry \<Rightarrow> gotype \<Rightarrow> error + string" where
  "getRegisteredNameFromInterface reg typ =
     (case typeToName reg typ of
        None \<Rightarrow> Inl (ModelTypeNotRegisteredError typ)
      | Some name \<Rightarrow> Inr name)"

definition getRegisteredTypeFromName :: "registry \<Rightarrow> string \<Rightarrow> error + gotype" where
  "getRegisteredTypeFromName reg name =
     (case nameToType reg name of
        None \<Rightarrow> Inl (ModelNameNotRegisteredError name)
      | Some typ \<Rightarrow> Inr typ)"

section \<open>The query builder (query.go)\<close>

datatype orderType = ascending | descending

datatype filterType =
  equal_op | notEqual | greater_op | less_op | greaterOrEqual | lessOrEqual

record qorder =
  fieldName :: string
  redisName :: string
  orderType :: orderType
  indexed :: bool
  indexType :: indexType

record qfilter =
  fieldName :: string
  redisName :: string
  filterType :: filterType
  filterValue :: goval
  indexType :: indexType
  byId :: bool

text \<open>\<^verbatim>\<open>limit\<close> and \<^verbatim>\<open>offset\<close> are Go \<^verbatim>\<open>uint\<close>s, taken as 64-bit words; \<open>err\<close> is the
  sticky error (\<open>None\<close> for \<^verbatim>\<open>nil\<close>).\<close>

record Query =
  modelSpec :: modelSpec
  "includes" :: "string list"
  excludes :: "string list"
  order :: qorder
  limit :: "64 word"
  offset :: "64 word"
  filters :: "qfilter list"
  err :: "error option"

fun filterSymbols :: "string \<Rightarrow> filterType option" where
  "filterSymbols s =
     (if s = ''='' then Some equal_op
      else if s = ''!='' then Some notEqual
      else if s = ''>'' then Some greater_op
      else if s = ''<'' then Some less_op
      else if s = ''>='' then Some greaterOrEqual
      else if s = ''<='' then Some lessOrEqual
      else None)"

text \<open>\<^verbatim>\<open>delString\<close>: the one-byte string ASCII DEL.\<close>

definition delString :: string where
  "delString = [CHR 0x7F]"

text \<open>The zero values \<^verbatim>\<open>order{}\<close> and \<^verbatim>\<open>&Query{}\<close>.\<close>

definition emptyOrder :: qorder where
  "emptyOrder =
     \<lparr>qorder.fieldName = [], qorder.redisName = [], orderType = ascending, indexed = False,
      qorder.indexType = indexNone\<rparr>"

definition emptyQuery :: Query where
  "emptyQuery =
     \<lparr>modelSpec = emptyModelSpec, includes = [], excludes = [], order = emptyOrder,
      limit = 0, offset = 0, filters = [], err = None\<rparr>"

definition setErrorIfNone :: "error \<Rightarrow> Query \<Rightarrow> Query" where
  "setErrorIfNone e q = (if err q = None then q\<lparr>err := Some e\<rparr> else q)"

text \<open>\<^verbatim>\<open>NewQuery\<close> looks the name up in \<^verbatim>\<open>modelSpecs\<close>, the third registry.\<close>

definition NewQuery :: "registry \<Rightarrow> string \<Rightarrow> Query" where
  "NewQuery reg name =
     (let q = emptyQuery
      in case modelSpecs reg name of
           None \<Rightarrow> setErrorIfNone (ModelNameNotRegisteredError name) q
         | Some spec \<Rightarrow> q\<lparr>modelSpec := spec\<rparr>)"

text \<open>
  \<^verbatim>\<open>Order\<close>. Neither the duplicate-order check nor the not-indexed check returns: the
  function goes on and, when the field exists, stores the new order.
\<close>

definition Order :: "string \<Rightarrow> Query \<Rightarrow> Query" where
  "Order fieldName0 q0 =
     (let q1 = (if qorder.fieldName (order q0) \<noteq> []
                then setErrorIfNone ErrOrderAlreadySpecified q0 else q0);
          (ot, fname) = (case fieldName0 of
                               c # rest \<Rightarrow> if c = CHR ''-'' then (descending, rest)
                                          else (ascending, fieldName0)
                             | [] \<Rightarrow> (ascending, fieldName0))
      in case field (modelSpec q1) fname of
           Some sf \<Rightarrow>
             (let (itype, found) = indexTypeForField (modelSpec q1) fname;
                  q2 = (if \<not> found then setErrorIfNone (ErrOrderNotIndexed fname) q1
                        else q1);
                  rname = (case redisNameForFieldName (modelSpec q2) fname of
                                 Some r \<Rightarrow> r | None \<Rightarrow> [])
              in q2\<lparr>order :=
                     \<lparr>qorder.fieldName = fname, qorder.redisName = rname,
                      orderType = ot, indexed = True, qorder.indexType = itype\<rparr>\<rparr>)
         | None \<Rightarrow> setErrorIfNone (ErrOrderFieldNotFound fname) q1)"

definition Limit :: "64 word \<Rightarrow> Query \<Rightarrow> Query" where
  "Limit amount q = q\<lparr>limit := amount\<rparr>"

definition Offset :: "64 word \<Rightarrow> Query \<Rightarrow> Query" where
  "Offset amount q = q\<lparr>offset := amount\<rparr>"

definition Include :: "string list \<Rightarrow> Query \<Rightarrow> Query" where
  "Include flds q =
     (if length (excludes q) > 0 then setErrorIfNone ErrIncludeExclude q
      else q\<lparr>includes := includes q @ flds\<rparr>)"

definition Exclude :: "string list \<Rightarrow> Query \<Rightarrow> Query" where
  "Exclude flds q =
     (if length (includes q) > 0 then setErrorIfNone ErrIncludeExclude q
      else q\<lparr>excludes := excludes q @ flds\<rparr>)"

definition splitFilterString :: "string \<Rightarrow> error + (string \<times> string)" where
  "splitFilterString filterString =
     (let split = Split filterString (CHR '' '')
      in case split of
           [fname, operator] \<Rightarrow> Inr (fname, operator)
         | _ \<Rightarrow> Inl ErrFilterStringSpaces)"

text \<open>\<^verbatim>\<open>filterById\<close>. The index type of the filter stays at its zero value, which is never
  read for a filter by id.\<close>

definition filterById :: "string \<Rightarrow> goval \<Rightarrow> Query \<Rightarrow> Query" where
  "filterById operator v q =
     (if operator \<noteq> ''='' then setErrorIfNone ErrIdOperator q
      else
        (let idVal = v
         in if kindOf (TypeOf idVal) \<noteq> KString
            then setErrorIfNone (ErrIdNotString (kindOf (TypeOf idVal))) q
            else
              (let f = \<lparr>qfilter.fieldName = ''Id'', qfilter.redisName = ''Id'',
                        filterType = equal_op, filterValue = idVal,
                        qfilter.indexType = indexNone, byId = True\<rparr>
               in q\<lparr>filters := filters q @ [f]\<rparr>)))"

text \<open>
  The loop of \<^verbatim>\<open>Filter\<close> that follows pointer indirections: it ends at the first
  non-pointer value, or reports an invalid value at a nil pointer.
\<close>

fun indirect :: "goval \<Rightarrow> goval option" where
  "indirect (VPtrTo v) = indirect v"
| "indirect (VNilPtr t) = None"
| "indirect v = Some v"

definition Filter :: "string \<Rightarrow> goval \<Rightarrow> Query \<Rightarrow> Query" where
  "Filter filterString v q =
     (case splitFilterString filterString of
        Inl e \<Rightarrow> setErrorIfNone e q
      | Inr (fname, operator) \<Rightarrow>
          if fname = ''Id'' then filterById operator v q
          else
            (case filterSymbols operator of
               None \<Rightarrow> setErrorIfNone ErrInvalidOperator q
             | Some typ \<Rightarrow>
                 (case redisNameForFieldName (modelSpec q) fname of
                    None \<Rightarrow> setErrorIfNone (ErrFilterFieldNotFound fname) q
                  | Some rname \<Rightarrow>
                      (let (itype, found) = indexTypeForField (modelSpec q) fname
                       in if \<not> found then setErrorIfNone (ErrFilterNotIndexed fname) q
                          else
                            (case indirect v of
                               None \<Rightarrow> setErrorIfNone ErrFilterNilPointer q
                             | Some valueVal \<Rightarrow>
                                 (case field (modelSpec q) fname of
                                    None \<Rightarrow>
                                      setErrorIfNone (Panic ''nil reflect.Type'') q
                                  | Some structField \<Rightarrow>
                                      (let fieldType = declaredType structField;
                                           valueType = TypeOf valueVal
                                       in if valueType \<noteq> fieldType
                                          then setErrorIfNone
                                                 (ErrFilterTypeMismatch valueType fieldType) q
                                          else
                                            q\<lparr>filters := filters q @
                                               [\<lparr>qfilter.fieldName = fname,
                                                 qfilter.redisName = rname,
                                                 filterType = typ,
                                                 filterValue = valueVal,
                                                 qfilter.indexType = itype,
                                                 byId = False\<rparr>]\<rparr>)))))))"

text \<open>A modifier call as data, so that chains of any length can be quantified over.\<close>

datatype modifier =
    MOrder string
  | MLimit "64 word"
  | MOffset "64 word"
  | MInclude "string list"
  | MExclude "string list"
  | MFilter string goval

fun applyModifier :: "Query \<Rightarrow> modifier \<Rightarrow> Query" where
  "applyModifier q (MOrder f) = Order f q"
| "applyModifier q (MLimit n) = Limit n q"
| "applyModifier q (MOffset n) = Offset n q"
| "applyModifier q (MInclude fs) = Include fs q"
| "applyModifier q (MExclude fs) = Exclude fs q"
| "applyModifier q (MFilter s v) = Filter s v q"

definition chain :: "Query \<Rightarrow> modifier list \<Rightarrow> Query" where
  "chain q ms = foldl applyModifier q ms"

section \<open>The store interface\<close>

text \<open>
  Arguments of a score-range command: \<^verbatim>\<open>"-inf"\<close>, \<^verbatim>\<open>"+inf"\<close>, a value passed as it is
  (inclusive bound), and \<^verbatim>\<open>fmt.Sprintf("(%v", v)\<close> (exclusive bound).
\<close>

datatype scoreArg = NegInf | PosInf | Incl goval | Excl goval

text \<open>The commands the query code sends, with their arguments in the order sent.\<close>

datatype command =
    SMEMBERS string
  | SRANDMEMBER string nat
  | SCARD string
  | ZCARD string
  | ZRANGE string int int
  | ZREVRANGE string int int
  | ZRANGEBYSCORE string scoreArg scoreArg
  | ZREVRANGEBYSCORE string scoreArg scoreArg
  | ZADD string int string
  | ZRANK string string
  | ZREM string "string list"

datatype reply = RInt int | RStrings "string list" | RNil

text \<open>
  The store is a parameter of the model: any function from a command and a store state to
  a reply (or an error) and a new state. The world threaded through the query code is the
  store state together with the log of the commands issued so far; \<^verbatim>\<open>conn.Do\<close> appends to
  the log.
\<close>

type_synonym 'st store = "command \<Rightarrow> 'st \<Rightarrow> (error + reply) \<times> 'st"
type_synonym 'st world = "'st \<times> command list"

definition Do :: "'st store \<Rightarrow> command \<Rightarrow> 'st world \<Rightarrow> (error + reply) \<times> 'st world" where
  "Do R c w = (case R c (fst w) of (r, s') \<Rightarrow> (r, (s', snd w @ [c])))"

text \<open>The reply conversions \<^verbatim>\<open>redis.Strings\<close> and \<^verbatim>\<open>redis.Int\<close> of the client library;
  a Go \<^verbatim>\<open>int\<close> is a 64-bit word read as two's complement.\<close>

fun redis_Strings :: "error + reply \<Rightarrow> error + string list" where
  "redis_Strings (Inl e) = Inl e"
| "redis_Strings (Inr (RStrings xs)) = Inr xs"
| "redis_Strings (Inr RNil) = Inl ErrNil"
| "redis_Strings (Inr (RInt n)) = Inl ErrUnexpectedReply"

fun redis_Int :: "error + reply \<Rightarrow> error + 64 word" where
  "redis_Int (Inl e) = Inl e"
| "redis_Int (Inr (RInt n)) =
     (if - (2 ^ 63) \<le> n \<and> n < 2 ^ 63 then Inr (word_of_int n) else Inl ErrRange)"
| "redis_Int (Inr RNil) = Inl ErrNil"
| "redis_Int (Inr (RStrings xs)) = Inl ErrUnexpectedReply"

text \<open>\<^verbatim>\<open>redis.Strings(conn.Do(command, args...))\<close>: one command is sent and its reply is
  read as a list of strings.\<close>

definition doStrings ::
  "'st store \<Rightarrow> command \<Rightarrow> 'st world \<Rightarrow> (error + string list) \<times> 'st world"
where
  "doStrings R c w = (case Do R c w of (r, w1) \<Rightarrow> (redis_Strings r, w1))"

text \<open>
  Modelled from the spec: the atomic-batch wrapper (\<^verbatim>\<open>newTransaction\<close>, \<^verbatim>\<open>command\<close>,
  \<^verbatim>\<open>exec\<close>), whose source is not at hand. Queued commands are executed strictly in
  submission order and all replies are collected before the batch completes; the
  per-command handlers then read the replies.
\<close>

fun exec :: "'st store \<Rightarrow> command list \<Rightarrow> 'st world \<Rightarrow> (error + reply) list \<times> 'st world" where
  "exec R [] w = ([], w)"
| "exec R (c # cs) w =
     (case Do R c w of
        (r, w1) \<Rightarrow> (case exec R cs w1 of (rs, w2) \<Rightarrow> (r # rs, w2)))"

section \<open>Reading values through reflection\<close>

function natToString :: "nat \<Rightarrow> string" where
  "natToString n =
     (if n < 10 then [char_of (48 + n)]
      else natToString (n div 10) @ [char_of (48 + n mod 10)])"
  by pat_completeness auto
termination
  by (relation "measure id") auto

fun typeString :: "gotype \<Rightarrow> string" where
  "typeString TBool = ''bool''"
| "typeString TInt = ''int''"
| "typeString TUint8 = ''uint8''"
| "typeString TFloat64 = ''float64''"
| "typeString TString = ''string''"
| "typeString (TPtr t) = ''*'' @ typeString t"
| "typeString (TSlice t) = ''[]'' @ typeString t"
| "typeString (TArray n t) = ''['' @ natToString n @ '']'' @ typeString t"
| "typeString (TStruct n fs) = n"

text \<open>\<^verbatim>\<open>Value.String()\<close> returns the string of a string value and a placeholder naming
  the type otherwise; \<^verbatim>\<open>Value.Bool()\<close> panics on a value that is not a bool.\<close>

definition Value_String :: "goval \<Rightarrow> string" where
  "Value_String v =
     (case v of
        VStr s \<Rightarrow> s
      | _ \<Rightarrow> ''<'' @ typeString (TypeOf v) @ '' Value>'')"

definition Value_Bool :: "goval \<Rightarrow> error + bool" where
  "Value_Bool v =
     (case v of
        VBool b \<Rightarrow> Inr b
      | _ \<Rightarrow> Inl (Panic ''reflect: call of reflect.Value.Bool on non-bool Value''))"

section \<open>Evaluating one filter (filter.getIds)\<close>

text \<open>
  What the inner \<^verbatim>\<open>switch f.filterType\<close> of each index kind decides before any command
  is built: return the empty list at once, issue one range command with the computed
  bounds, or take the two-command not-equal path.
\<close>

datatype 'a plan = ReturnEmpty | Single 'a | NotEqualSplit

text \<open>Numeric index: the bounds of the score range.\<close>

fun numericPlan :: "filterType \<Rightarrow> goval \<Rightarrow> (scoreArg \<times> scoreArg) plan" where
  "numericPlan equal_op v = Single (Incl v, Incl v)"
| "numericPlan less_op v = Single (NegInf, Excl v)"
| "numericPlan greater_op v = Single (Excl v, PosInf)"
| "numericPlan lessOrEqual v = Single (NegInf, Incl v)"
| "numericPlan greaterOrEqual v = Single (Incl v, PosInf)"
| "numericPlan notEqual v = NotEqualSplit"

text \<open>Boolean index: scores 0 (false) and 1 (true).\<close>

fun booleanPlan :: "filterType \<Rightarrow> bool \<Rightarrow> (int \<times> int) plan" where
  "booleanPlan equal_op b = (if b then Single (1, 1) else Single (0, 0))"
| "booleanPlan less_op b = (if b then Single (0, 0) else ReturnEmpty)"
| "booleanPlan greater_op b = (if b then ReturnEmpty else Single (1, 1))"
| "booleanPlan lessOrEqual b = (if b then Single (0, 1) else Single (0, 0))"
| "booleanPlan greaterOrEqual b = (if b then Single (1, 1) else Single (0, 1))"
| "booleanPlan notEqual b = (if b then Single (0, 0) else Single (1, 1))"

text \<open>Alpha index: the rank range computed from \<open>beforeRank\<close> and \<open>afterRank\<close> (Go ints,
  compared as signed numbers).\<close>

fun alphaPlan :: "filterType \<Rightarrow> 64 word \<Rightarrow> 64 word \<Rightarrow> (64 word \<times> 64 word) plan" where
  "alphaPlan equal_op beforeRank afterRank =
     (if beforeRank + 1 = afterRank then ReturnEmpty
      else Single (beforeRank, afterRank - 2))"
| "alphaPlan less_op beforeRank afterRank =
     (if sint afterRank \<le> 2 then ReturnEmpty
      else Single (0, afterRank - (afterRank - beforeRank) - 1))"
| "alphaPlan greater_op beforeRank afterRank =
     Single (beforeRank + (afterRank - beforeRank) - 1, - 1)"
| "alphaPlan lessOrEqual beforeRank afterRank =
     (if sint afterRank \<le> 1 then ReturnEmpty
      else Single (0, afterRank - 2))"
| "alphaPlan greaterOrEqual beforeRank afterRank = Single (beforeRank, - 1)"
| "alphaPlan notEqual beforeRank afterRank = NotEqualSplit"

text \<open>The first error among the replies of a batch, as \<^verbatim>\<open>t.exec()\<close> reports it.\<close>

fun firstError :: "(error + reply) list \<Rightarrow> error option" where
  "firstError [] = None"
| "firstError (Inl e # rs) = Some e"
| "firstError (Inr r # rs) = firstError rs"

text \<open>
  \<^verbatim>\<open>getAlphaRanks\<close>: two sentinels are added (the target itself and the target followed
  by ASCII DEL), their ranks are read and both are removed again, all in one batch.
\<close>

definition getAlphaRanks ::
  "'st store \<Rightarrow> string \<Rightarrow> qfilter \<Rightarrow> 'st world \<Rightarrow> (error + (64 word \<times> 64 word)) \<times> 'st world"
where
  "getAlphaRanks R setKey f w =
     (let target = Value_String (filterValue f);
          before = target;
          after = target @ delString
      in case exec R [ZADD setKey 0 before, ZADD setKey 0 after,
                      ZRANK setKey before, ZRANK setKey after,
                      ZREM setKey [before, after]] w of
           (rs, w1) \<Rightarrow>
             (case firstError rs of
                Some e \<Rightarrow> (Inl e, w1)
              | None \<Rightarrow>
                  (case rs of
                     [r1, r2, r3, r4, r5] \<Rightarrow>
                       (case redis_Int r3 of
                          Inl e \<Rightarrow> (Inl e, w1)
                        | Inr beforeRank \<Rightarrow>
                            (case redis_Int r4 of
                               Inl e \<Rightarrow> (Inl e, w1)
                             | Inr afterRank \<Rightarrow> (Inr (beforeRank, afterRank), w1)))
                   | _ \<Rightarrow> (Inl (Panic ''batch reply count''), w1))))"

text \<open>The numeric case of \<^verbatim>\<open>filter.getIds\<close>.\<close>

definition getIdsNumeric ::
  "'st store \<Rightarrow> string \<Rightarrow> bool \<Rightarrow> qfilter \<Rightarrow> 'st world \<Rightarrow> (error + string list) \<times> 'st world"
where
  "getIdsNumeric R setKey reverse f w =
     (let v = filterValue f
      in case numericPlan (filterType f) v of
           Single (minArg, maxArg) \<Rightarrow>
             (let cmd = (if \<not> reverse then ZRANGEBYSCORE setKey minArg maxArg
                         else ZREVRANGEBYSCORE setKey maxArg minArg)
              in doStrings R cmd w)
         | NotEqualSplit \<Rightarrow>
             (case exec R [ZRANGEBYSCORE setKey NegInf (Excl v),
                           ZRANGEBYSCORE setKey (Excl v) PosInf] w of
                (rs, w1) \<Rightarrow>
                  (case rs of
                     [r1, r2] \<Rightarrow>
                       (case redis_Strings r1 of
                          Inl e \<Rightarrow> (Inl e, w1)
                        | Inr lessIds \<Rightarrow>
                            (case redis_Strings r2 of
                               Inl e \<Rightarrow> (Inl e, w1)
                             | Inr greaterIds \<Rightarrow>
                                 if \<not> reverse then (Inr (lessIds @ greaterIds), w1)
                                 else (Inr (reverseInPlace greaterIds @
                                            reverseInPlace lessIds), w1)))
                   | _ \<Rightarrow> (Inl (Panic ''batch reply count''), w1)))
         | ReturnEmpty \<Rightarrow> (Inr [], w))"

text \<open>The boolean case.\<close>

definition getIdsBoolean ::
  "'st store \<Rightarrow> string \<Rightarrow> bool \<Rightarrow> qfilter \<Rightarrow> 'st world \<Rightarrow> (error + string list) \<times> 'st world"
where
  "getIdsBoolean R setKey reverse f w =
     (case Value_Bool (filterValue f) of
        Inl e \<Rightarrow> (Inl e, w)
      | Inr b \<Rightarrow>
          (case booleanPlan (filterType f) b of
             ReturnEmpty \<Rightarrow> (Inr [], w)
           | Single (minScore, maxScore) \<Rightarrow>
               (let cmd = (if \<not> reverse
                           then ZRANGEBYSCORE setKey (Incl (VInt minScore)) (Incl (VInt maxScore))
                           else ZREVRANGEBYSCORE setKey (Incl (VInt maxScore))
                                  (Incl (VInt minScore)))
                in doStrings R cmd w)
           | NotEqualSplit \<Rightarrow> (Inl ErrOperatorOutOfRange, w)))"

text \<open>
  The alpha case. Ranks are passed to \<^verbatim>\<open>ZRANGE\<close> as signed numbers; each member of the
  reply is decoded to its id. On the not-equal path the command for the smaller members is
  queued only when \<open>afterRank > 3\<close>; otherwise \<open>lessIds\<close> keeps its initial empty value,
  which stands in the reply list as an empty reply.
\<close>

definition getIdsAlpha ::
  "'st store \<Rightarrow> string \<Rightarrow> bool \<Rightarrow> qfilter \<Rightarrow> 'st world \<Rightarrow> (error + string list) \<times> 'st world"
where
  "getIdsAlpha R setKey reverse f w =
     (case getAlphaRanks R setKey f w of
        (Inl e, w1) \<Rightarrow> (Inl e, w1)
      | (Inr (beforeRank, afterRank), w1) \<Rightarrow>
          (case alphaPlan (filterType f) beforeRank afterRank of
             ReturnEmpty \<Rightarrow> (Inr [], w1)
           | Single (start, stop) \<Rightarrow>
               (case doStrings R (ZRANGE setKey (sint start) (sint stop)) w1 of
                  (Inl e, w2) \<Rightarrow> (Inl e, w2)
                | (Inr raw, w2) \<Rightarrow>
                    (let ids = map extractModelIdFromAlphaIndexValue raw
                     in (Inr (if reverse then reverseInPlace ids else ids), w2)))
           | NotEqualSplit \<Rightarrow>
               (let lessCmds =
                      (if sint afterRank > 3
                       then [ZRANGE setKey 0
                               (sint (afterRank - (afterRank - beforeRank) - 1))]
                       else []);
                    greaterCmd =
                      ZRANGE setKey (sint (beforeRank + (afterRank - beforeRank) - 1)) (- 1)
                in case exec R (lessCmds @ [greaterCmd]) w1 of
                     (rs, w2) \<Rightarrow>
                       (case (if sint afterRank > 3 then rs
                              else Inr (RStrings []) # rs) of
                          [lessReply, greaterReply] \<Rightarrow>
                            (case redis_Strings lessReply of
                               Inl e \<Rightarrow> (Inl e, w2)
                             | Inr lessRaw \<Rightarrow>
                                 (case redis_Strings greaterReply of
                                    Inl e \<Rightarrow> (Inl e, w2)
                                  | Inr greaterRaw \<Rightarrow>
                                      (let lessIds =
                                             map extractModelIdFromAlphaIndexValue lessRaw;
                                           greaterIds =
                                             map extractModelIdFromAlphaIndexValue greaterRaw
                                       in if \<not> reverse
                                          then (Inr (lessIds @ greaterIds), w2)
                                          else (Inr (reverseInPlace greaterIds @
                                                     reverseInPlace lessIds), w2))))
                        | _ \<Rightarrow> (Inl (Panic ''batch reply count''), w2)))))"

text \<open>
  \<^verbatim>\<open>filter.getIds\<close>: a filter by id answers from its own value; every other filter is
  evaluated on the index \<^verbatim>\<open>modelName + ":" + redisName\<close> according to its index kind.
\<close>

definition getIds ::
  "'st store \<Rightarrow> string \<Rightarrow> qorder \<Rightarrow> qfilter \<Rightarrow> 'st world \<Rightarrow> (error + string list) \<times> 'st world"
where
  "getIds R mName od f w =
     (if byId f then
        (let ident = Value_String (filterValue f) in (Inr [ident], w))
      else
        (let setKey = mName @ '':'' @ qfilter.redisName f;
             reverse = (orderType od = descending
                        \<and> qorder.fieldName od = qfilter.fieldName f)
         in case qfilter.indexType f of
              indexNumeric \<Rightarrow> getIdsNumeric R setKey reverse f w
            | indexBoolean \<Rightarrow> getIdsBoolean R setKey reverse f w
            | indexAlpha \<Rightarrow> getIdsAlpha R setKey reverse f w
            | indexNone \<Rightarrow> (Inl (ErrUnindexedFilter (qfilter.fieldName f) mName), w)))"

section \<open>Evaluating a query\<close>

text \<open>
  \<^verbatim>\<open>getOrderedIds\<close>: a rank range over the order field's index, from \<open>offset\<close> to
  \<open>offset + limit - 1\<close>, or to \<open>-1\<close> when there is no limit. \<open>start\<close> is sent as an
  unsigned number, \<open>stop\<close> (a Go int, computed with wrap-around) as a signed one.
\<close>

definition getOrderedIds :: "'st store \<Rightarrow> Query \<Rightarrow> 'st world \<Rightarrow> (error + string list) \<times> 'st world"
where
  "getOrderedIds R q w =
     (let start = offset q;
          stop = (if limit q \<noteq> 0 then start + limit q - 1 else - 1);
          indexKey = modelName (modelSpec q) @ '':'' @ qorder.redisName (order q);
          cmd = (case orderType (order q) of
                   ascending \<Rightarrow> ZRANGE indexKey (uint start) (sint stop)
                 | descending \<Rightarrow> ZREVRANGE indexKey (uint start) (sint stop))
      in if qorder.indexType (order q) = indexNumeric
            \<or> qorder.indexType (order q) = indexBoolean
         then doStrings R cmd w
         else
           (case doStrings R cmd w of
              (Inl e, w1) \<Rightarrow> (Inl e, w1)
            | (Inr ids, w1) \<Rightarrow> (Inr (map extractModelIdFromAlphaIndexValue ids), w1)))"

definition getIdsWithoutFilters ::
  "'st store \<Rightarrow> Query \<Rightarrow> 'st world \<Rightarrow> (error + string list) \<times> 'st world"
where
  "getIdsWithoutFilters R q w =
     (if qorder.fieldName (order q) = [] then
        (if offset q \<noteq> 0 then (Inl ErrOffsetWithoutOrder, w)
         else
           (let indexKey = modelName (modelSpec q) @ '':all'';
                cmd = (if limit q = 0 then SMEMBERS indexKey
                       else SRANDMEMBER indexKey (unat (limit q)))
            in doStrings R cmd w))
      else getOrderedIds R q w)"

text \<open>
  The map \<^verbatim>\<open>idSets\<close> from field names to id lists is an association list; storing under
  a key that is already present replaces its value.
\<close>

fun mapStore :: "string \<Rightarrow> 'v \<Rightarrow> (string \<times> 'v) list \<Rightarrow> (string \<times> 'v) list" where
  "mapStore k v [] = [(k, v)]"
| "mapStore k v ((k', v') # m) =
     (if k' = k then (k, v) # m else (k', v') # mapStore k v m)"

text \<open>
  The first loop of \<^verbatim>\<open>getIdsWithFilters\<close>: each filter is evaluated in turn; an error
  aborts, an empty id list ends the whole query with the empty result (\<open>None\<close> here),
  otherwise the ids are stored under the filter's field name.
\<close>

fun collectIdSets ::
  "'st store \<Rightarrow> string \<Rightarrow> qorder \<Rightarrow> qfilter list \<Rightarrow> (string \<times> string list) list \<Rightarrow> 'st world
   \<Rightarrow> (error + (string \<times> string list) list option) \<times> 'st world"
where
  "collectIdSets R mName od [] idSets w = (Inr (Some idSets), w)"
| "collectIdSets R mName od (f # fs) idSets w =
     (case getIds R mName od f w of
        (Inl e, w1) \<Rightarrow> (Inl e, w1)
      | (Inr ids, w1) \<Rightarrow>
          if length ids = 0 then (Inr None, w1)
          else collectIdSets R mName od fs (mapStore (qfilter.fieldName f) ids idSets) w1)"

text \<open>
  \<^verbatim>\<open>getIdsWithFilters\<close>. Go enumerates a map in an unspecified order; the parameter
  \<open>iter\<close> stands for the order in which \<^verbatim>\<open>range idSets\<close> visits the entries. Without an
  order the first list visited is intersected with every list; with an order the ids of the
  order field (a filter's result on that field, or else \<^verbatim>\<open>getOrderedIds\<close>) are copied and
  intersected with the lists of all other fields.
\<close>

definition getIdsWithFilters ::
  "'st store \<Rightarrow> ((string \<times> string list) list \<Rightarrow> (string \<times> string list) list) \<Rightarrow> Query
   \<Rightarrow> 'st world \<Rightarrow> (error + string list) \<times> 'st world"
where
  "getIdsWithFilters R iter q w =
     (case collectIdSets R (modelName (modelSpec q)) (order q) (filters q) [] w of
        (Inl e, w1) \<Rightarrow> (Inl e, w1)
      | (Inr None, w1) \<Rightarrow> (Inr [], w1)
      | (Inr (Some idSets), w1) \<Rightarrow>
          if qorder.fieldName (order q) = [] then
            (let idSetsSlice = map snd (iter idSets)
             in case idSetsSlice of
                  [] \<Rightarrow> (Inl (Panic ''index out of range''), w1)
                | final # rest \<Rightarrow> (Inr (intersectAll final idSetsSlice), w1))
          else
            (let others = map snd (filter (\<lambda>(fname, oIds). fname \<noteq> qorder.fieldName (order q))
                                     (iter idSets))
             in case map_of idSets (qorder.fieldName (order q)) of
                  Some primaryIds \<Rightarrow> (Inr (intersectAll primaryIds others), w1)
                | None \<Rightarrow>
                    (case getOrderedIds R q w1 of
                       (Inl e, w2) \<Rightarrow> (Inl e, w2)
                     | (Inr orderedIds, w2) \<Rightarrow>
                         (Inr (intersectAll orderedIds others), w2))))"

definition GetIds ::
  "'st store \<Rightarrow> ((string \<times> string list) list \<Rightarrow> (string \<times> string list) list) \<Rightarrow> Query
   \<Rightarrow> 'st world \<Rightarrow> (error + string list) \<times> 'st world"
where
  "GetIds R iter q w =
     (if length (filters q) = 0 then getIdsWithoutFilters R q w
      else getIdsWithFilters R iter q w)"

section \<open>Counting (getIdCount)\<close>

text \<open>
  \<^verbatim>\<open>float64(x)\<close> of an integer rounds to 53 significant bits, ties to even; the result
  is again an integer, so a \<^verbatim>\<open>float64\<close> holding it is represented by that integer.
\<close>

fun bitlen :: "nat \<Rightarrow> nat" where
  "bitlen n = (if n = 0 then 0 else Suc (bitlen (n div 2)))"

definition round53 :: "nat \<Rightarrow> nat" where
  "round53 n =
     (let b = bitlen n
      in if b \<le> 53 then n
         else
           (let k = b - 53;
                q = n div 2 ^ k;
                r = n mod 2 ^ k;
                h = 2 ^ (k - 1);
                q' = (if r > h \<or> (r = h \<and> odd q) then q + 1 else q)
            in q' * 2 ^ k))"

definition float64_of_int :: "int \<Rightarrow> int" where
  "float64_of_int x = sgn x * int (round53 (nat \<bar>x\<bar>))"

text \<open>\<^verbatim>\<open>int(f)\<close> of a float holding an integer: the integer itself when it fits 64 bits;
  out of range the result is the processor's (\<open>-2^63\<close> on amd64).\<close>

definition int_of_float64 :: "int \<Rightarrow> 64 word" where
  "int_of_float64 m =
     (if - (2 ^ 63) \<le> m \<and> m < 2 ^ 63 then word_of_int m else word_of_int (- (2 ^ 63)))"

text \<open>
  \<^verbatim>\<open>getIdCount\<close>. The filters of the query are not consulted. \<open>count\<close> is a Go int;
  \<^verbatim>\<open>q.offset > uint(count)\<close> compares unsigned, \<^verbatim>\<open>count > limitInt\<close> signed.
\<close>

definition getIdCount :: "'st store \<Rightarrow> Query \<Rightarrow> 'st world \<Rightarrow> (error + 64 word) \<times> 'st world"
where
  "getIdCount R q w =
     (if qorder.fieldName (order q) = [] then
        (if offset q \<noteq> 0 then (Inl ErrOffsetWithoutOrder, w)
         else
           (let indexKey = modelName (modelSpec q) @ '':all''
            in case Do R (SCARD indexKey) w of
                 (r, w1) \<Rightarrow>
                   (case redis_Int r of
                      Inl e \<Rightarrow> (Inl e, w1)
                    | Inr count \<Rightarrow>
                        if limit q = 0 then (Inr count, w1)
                        else
                          (let limitInt = limit q
                           in if sint count > sint limitInt then (Inr limitInt, w1)
                              else (Inr count, w1)))))
      else
        (let indexKey = modelName (modelSpec q) @ '':'' @ qorder.redisName (order q)
         in case Do R (ZCARD indexKey) w of
              (r, w1) \<Rightarrow>
                (case redis_Int r of
                   Inl e \<Rightarrow> (Inl e, w1)
                 | Inr count \<Rightarrow>
                     if limit q = 0 \<and> offset q = 0 then (Inr count, w1)
                     else if offset q > count then (Inr 0, w1)
                     else if limit q = 0 then (Inr (count - offset q), w1)
                     else
                       (Inr (int_of_float64
                               (min (float64_of_int (sint (count - offset q)))
                                    (float64_of_int (uint (limit q))))), w1))))"

section \<open>Finishers\<close>

text \<open>\<^verbatim>\<open>getIncludes\<close>: \<open>None\<close> is the nil slice, meaning all fields.\<close>

definition getIncludes :: "Query \<Rightarrow> string list option" where
  "getIncludes q =
     (if length (includes q) \<noteq> 0 then Some (includes q)
      else if length (excludes q) \<noteq> 0
      then Some (foldl removeElementFromStringSlice (fieldNames (modelSpec q)) (excludes q))
      else None)"

text \<open>
  Hydration (\<^verbatim>\<open>scanModelsByIds\<close>) goes through collaborators outside the query engine; it
  is a parameter: given the model name, the ids and the included fields it yields the
  models read and possibly an error.
\<close>

type_synonym ('st, 'm) hydrator =
  "string \<Rightarrow> string list \<Rightarrow> string list option \<Rightarrow> 'st world \<Rightarrow> ('m list \<times> error option) \<times> 'st world"

type_synonym mapIter = "(string \<times> string list) list \<Rightarrow> (string \<times> string list) list"

text \<open>\<^verbatim>\<open>Run\<close> returns the pair (results, error); \<open>None\<close> results are Go's nil.\<close>

definition Run ::
  "'st store \<Rightarrow> mapIter \<Rightarrow> ('st, 'm) hydrator \<Rightarrow> Query \<Rightarrow> 'st world
   \<Rightarrow> ('m list option \<times> error option) \<times> 'st world"
where
  "Run R iter scanModelsByIds q w =
     (case err q of
        Some e \<Rightarrow> ((None, Some e), w)
      | None \<Rightarrow>
          (case GetIds R iter q w of
             (Inl e, w1) \<Rightarrow> ((None, Some e), w1)
           | (Inr ids, w1) \<Rightarrow>
               (case scanModelsByIds (modelName (modelSpec q)) ids (getIncludes q) w1 of
                  ((results, e), w2) \<Rightarrow> ((Some results, e), w2))))"


definition Count :: "'st store \<Rightarrow> Query \<Rightarrow> 'st world \<Rightarrow> (error + 64 word) \<times> 'st world" where
  "Count R q w =
     (case err q of
        Some e \<Rightarrow> (Inl e, w)
      | None \<Rightarrow> getIdCount R q w)"

definition IdsOnly ::
  "'st store \<Rightarrow> mapIter \<Rightarrow> Query \<Rightarrow> 'st world \<Rightarrow> (error + string list) \<times> 'st world"
where
  "IdsOnly R iter q w =
     (case err q of
        Some e \<Rightarrow> (Inl e, w)
      | None \<Rightarrow> GetIds R iter q w)"

section \<open>A reference store for sorted sets\<close>

text \<open>
  To run the query code on concrete data, the sorted-set commands are given their
  documented meaning on a small store: a sorted set is the list of its (score, member)
  pairs in index order, that is by score and, among equal scores, by the bytes of the
  member. Set commands are not part of this store and are answered with an error.
\<close>

type_synonym zset = "(int \<times> string) list"
type_synonym zstore = "string \<Rightarrow> zset"

fun bytesLess :: "string \<Rightarrow> string \<Rightarrow> bool" where
  "bytesLess [] [] = False"
| "bytesLess [] (y # ys) = True"
| "bytesLess (x # xs) [] = False"
| "bytesLess (x # xs) (y # ys) =
     ((of_char x :: nat) < of_char y \<or> (x = y \<and> bytesLess xs ys))"

definition entryLess :: "int \<times> string \<Rightarrow> int \<times> string \<Rightarrow> bool" where
  "entryLess a b = (fst a < fst b \<or> (fst a = fst b \<and> bytesLess (snd a) (snd b)))"

fun zinsert :: "int \<times> string \<Rightarrow> zset \<Rightarrow> zset" where
  "zinsert e [] = [e]"
| "zinsert e (x # xs) = (if entryLess e x then e # x # xs else x # zinsert e xs)"

definition zremove :: "string \<Rightarrow> zset \<Rightarrow> zset" where
  "zremove m z = filter (\<lambda>e. snd e \<noteq> m) z"

fun zrank :: "string \<Rightarrow> zset \<Rightarrow> nat option" where
  "zrank m [] = None"
| "zrank m (e # z) = (if snd e = m then Some 0 else map_option Suc (zrank m z))"

text \<open>A rank range with Redis' index rules: negative indices count from the end, the
  stop index is inclusive and clipped to the last element.\<close>

definition rangeByRank :: "int \<Rightarrow> int \<Rightarrow> 'a list \<Rightarrow> 'a list" where
  "rangeByRank start stop xs =
     (let n = int (length xs);
          s = (if start < 0 then max 0 (n + start) else start);
          e = (if stop < 0 then n + stop else min stop (n - 1))
      in if s > e \<or> s \<ge> n then [] else take (nat (e - s + 1)) (drop (nat s) xs))"

fun aboveMin :: "scoreArg \<Rightarrow> int \<Rightarrow> bool" where
  "aboveMin NegInf x = True"
| "aboveMin PosInf x = False"
| "aboveMin (Incl (VInt v)) x = (v \<le> x)"
| "aboveMin (Excl (VInt v)) x = (v < x)"
| "aboveMin a x = False"

fun belowMax :: "scoreArg \<Rightarrow> int \<Rightarrow> bool" where
  "belowMax NegInf x = False"
| "belowMax PosInf x = True"
| "belowMax (Incl (VInt v)) x = (x \<le> v)"
| "belowMax (Excl (VInt v)) x = (x < v)"
| "belowMax a x = False"

fun redisModel :: "command \<Rightarrow> zstore \<Rightarrow> (error + reply) \<times> zstore" where
  "redisModel (ZADD k score m) st =
     (Inr (RInt (if zrank m (st k) = None then 1 else 0)),
      st(k := zinsert (score, m) (zremove m (st k))))"
| "redisModel (ZRANK k m) st =
     (case zrank m (st k) of
        None \<Rightarrow> (Inr RNil, st)
      | Some i \<Rightarrow> (Inr (RInt (int i)), st))"
| "redisModel (ZREM k ms) st =
     (Inr (RInt (int (length (filter (\<lambda>e. snd e \<in> set ms) (st k))))),
      st(k := filter (\<lambda>e. snd e \<notin> set ms) (st k)))"
| "redisModel (ZRANGE k start stop) st =
     (Inr (RStrings (map snd (rangeByRank start stop (st k)))), st)"
| "redisModel (ZREVRANGE k start stop) st =
     (Inr (RStrings (map snd (rangeByRank start stop (rev (st k))))), st)"
| "redisModel (ZCARD k) st = (Inr (RInt (int (length (st k)))), st)"
| "redisModel (ZRANGEBYSCORE k lo hi) st =
     (Inr (RStrings (map snd (filter (\<lambda>e. aboveMin lo (fst e) \<and> belowMax hi (fst e)) (st k)))),
      st)"
| "redisModel (ZREVRANGEBYSCORE k hi lo) st =
     (Inr (RStrings (map snd (filter (\<lambda>e. aboveMin lo (fst e) \<and> belowMax hi (fst e))
                                 (rev (st k))))),
      st)"
| "redisModel (SMEMBERS k) st = (Inl (StoreError ''WRONGTYPE''), st)"
| "redisModel (SRANDMEMBER k n) st = (Inl (StoreError ''WRONGTYPE''), st)"
| "redisModel (SCARD k) st = (Inl (StoreError ''WRONGTYPE''), st)"

section \<open>Example data\<close>

text \<open>The alpha index of the field \<open>Name\<close> of a model \<open>Fruit\<close>: four records.\<close>

definition fruitStore :: zstore where
  "fruitStore =
     (\<lambda>k. [])(''Fruit:Name'' :=
        [(0, ''apple 1''), (0, ''banana 2''), (0, ''banana 3''), (0, ''cherry 4'')])"

text \<open>The same index holding two records only, none of them a banana.\<close>

definition smallStore :: zstore where
  "smallStore = (\<lambda>k. [])(''Fruit:Name'' := [(0, ''apple 1''), (0, ''cherry 4'')])"

text \<open>The same index without the apple: no member lies below banana.\<close>

definition bananaStore :: zstore where
  "bananaStore =
     (\<lambda>k. [])(''Fruit:Name'' := [(0, ''banana 2''), (0, ''banana 3''), (0, ''cherry 4'')])"

definition nameFilter :: "filterType \<Rightarrow> string \<Rightarrow> qfilter" where
  "nameFilter ft v =
     \<lparr>qfilter.fieldName = ''Name'', qfilter.redisName = ''Name'', filterType = ft,
      filterValue = VStr v, qfilter.indexType = indexAlpha, byId = False\<rparr>"

text \<open>A store that answers every command with the integer 100, and one that fails.\<close>

definition hundredStore :: "unit store" where
  "hundredStore c s = (Inr (RInt 100), s)"

definition brokenStore :: "unit store" where
  "brokenStore c s = (Inl (StoreError ''down''), s)"

text \<open>A model type \<open>Person\<close> with an indexed numeric field, an indexed boolean field and a
  slice field, and its catalog.\<close>

definition personType :: gotype where
  "personType =
     TPtr (TStruct ''Person''
       [StructField ''DefaultData'' (TStruct ''DefaultData'' []) [] [],
        StructField ''Age'' TInt [] [],
        StructField ''Active'' TBool [] [],
        StructField ''Tags'' (TSlice TString) [] ''set''])"

definition personSpec :: modelSpec where
  "personSpec =
     \<lparr>modelName = ''Person'', modelType = personType, sets = [], lists = [],
      fieldNames = [''Age'', ''Active'', ''Tags''],
      catalog =
        [\<lparr>IndexEntry.fieldName = ''Age'', storeKeyName = ''Age'', indexKind = indexNumeric,
          declaredType = TInt\<rparr>,
         \<lparr>IndexEntry.fieldName = ''Active'', storeKeyName = ''Active'',
          indexKind = indexBoolean, declaredType = TBool\<rparr>]\<rparr>"

definition personQuery :: Query where
  "personQuery = emptyQuery\<lparr>modelSpec := personSpec\<rparr>"

definition ageFilter :: "filterType \<Rightarrow> int \<Rightarrow> qfilter" where
  "ageFilter ft v =
     \<lparr>qfilter.fieldName = ''Age'', qfilter.redisName = ''Age'', filterType = ft,
      filterValue = VInt v, qfilter.indexType = indexNumeric, byId = False\<rparr>"

definition activeFilter :: "filterType \<Rightarrow> bool \<Rightarrow> qfilter" where
  "activeFilter ft b =
     \<lparr>qfilter.fieldName = ''Active'', qfilter.redisName = ''Active'', filterType = ft,
      filterValue = VBool b, qfilter.indexType = indexBoolean, byId = False\<rparr>"

definition ageOrder :: "orderType \<Rightarrow> qorder" where
  "ageOrder ot =
     \<lparr>qorder.fieldName = ''Age'', qorder.redisName = ''Age'', orderType = ot,
      indexed = True, qorder.indexType = indexNumeric\<rparr>"

text \<open>The numeric index of \<open>Age\<close> for four persons.\<close>

definition ageStore :: zstore where
  "ageStore =
     (\<lambda>k. [])(''Person:Age'' := [(20, ''a''), (30, ''b''), (30, ''c''), (40, ''d'')])"

text \<open>The filter that \<open>filterById\<close> appends for an identifier value.\<close>

definition idFilter :: "goval \<Rightarrow> qfilter" where
  "idFilter v =
     \<lparr>qfilter.fieldName = ''Id'', qfilter.redisName = ''Id'', filterType = equal_op,
      filterValue = v, qfilter.indexType = indexNone, byId = True\<rparr>"


text \<open>A query with a filter by id and an offset, but no order.\<close>

definition offsetFilterQuery :: Query where
  "offsetFilterQuery = chain personQuery [MFilter ''Id ='' (VStr ''abc''), MOffset 5]"

text \<open>A hydrator that reads nothing, and the map enumeration in insertion order.\<close>

definition noHydration :: "(unit, unit) hydrator" where
  "noHydration mName ids incl w = (([], None), w)"

definition insertionOrder :: mapIter where
  "insertionOrder m = m"

section \<open>Properties of the utility functions\<close>

lemma Split_not_Nil: "Split s c \<noteq> []"
  by (induction s) (auto split: list.splits)

lemma Split_no_sep: "c \<notin> set s \<Longrightarrow> Split s c = [s]"
  by (induction s) auto

lemma Split_append_last: "c \<notin> set b \<Longrightarrow> Split (a @ c # b) c = Split a c @ [b]"
proof (induction a)
  case Nil
  then show ?case by (simp add: Split_no_sep)
next
  case (Cons x a)
  then show ?case
    by (cases "Split a c") (auto simp: Split_not_Nil)
qed

lemma memoOf_aux: "foldl (\<lambda>memo a. memo(a \<mapsto> ())) m xs a \<noteq> None \<longleftrightarrow> a \<in> set xs \<or> m a \<noteq> None"
  by (induction xs arbitrary: m) auto

lemma memoOf_iff: "memoOf second a \<noteq> None \<longleftrightarrow> a \<in> set second"
  using memoOf_aux [of Map.empty second a] by (simp add: memoOf_def)

lemma foldl_append_filter: "foldl (\<lambda>results a. if P a then results @ [a] else results) acc xs = acc @ filter P xs"
  by (induction xs arbitrary: acc) auto

lemma orderedIntersectStrings_filter:
  "orderedIntersectStrings first second = filter (\<lambda>a. a \<in> set second) first"
  using memoOf_iff [of second]
  by (simp add: orderedIntersectStrings_def Let_def foldl_append_filter)

lemma intersectAll_filter:
  "intersectAll anchor secs = filter (\<lambda>a. \<forall>s \<in> set secs. a \<in> set s) anchor"
  unfolding intersectAll_def
proof (induction secs arbitrary: anchor)
  case Nil
  then show ?case by simp
next
  case (Cons s secs)
  have "foldl orderedIntersectStrings anchor (s # secs) =
        filter (\<lambda>a. \<forall>s \<in> set secs. a \<in> set s) (orderedIntersectStrings anchor s)"
    by (simp only: foldl_Cons Cons.IH)
  also have "\<dots> = filter (\<lambda>a. \<forall>s \<in> set (s # secs). a \<in> set s) anchor"
    by (simp add: orderedIntersectStrings_filter conj_commute)
  finally show ?case .
qed


declare reverseLoop.simps [simp del]

lemma reverseLoop_length: "length (reverseLoop i j xs) = length xs"
proof (induction i j xs rule: reverseLoop.induct)
  case (1 i j ids)
  show ?case
  proof (cases "i \<le> j")
    case True
    then have "reverseLoop i j ids =
        reverseLoop (i + 1) (j - 1) (ids[nat i := ids ! nat j, nat j := ids ! nat i])"
      by (subst reverseLoop.simps) simp
    with 1 True show ?thesis by simp
  next
    case False
    then show ?thesis by (subst reverseLoop.simps) simp
  qed
qed

lemma reverseLoop_nth:
  "0 \<le> i \<Longrightarrow> j < int (length xs) \<Longrightarrow> k < length xs \<Longrightarrow>
   reverseLoop i j xs ! k =
     (if i \<le> int k \<and> int k \<le> j then xs ! nat (i + j - int k) else xs ! k)"
proof (induction i j xs rule: reverseLoop.induct)
  case (1 i j ids)
  show ?case
  proof (cases "i \<le> j")
    case True
    let ?ids' = "ids[nat i := ids ! nat j, nat j := ids ! nat i]"
    have unfold: "reverseLoop i j ids = reverseLoop (i + 1) (j - 1) ?ids'"
      using True by (subst reverseLoop.simps) simp
    have IH: "reverseLoop (i + 1) (j - 1) ?ids' ! k =
        (if i + 1 \<le> int k \<and> int k \<le> j - 1 then ?ids' ! nat (i + 1 + (j - 1) - int k)
         else ?ids' ! k)"
      using "1.IH" [OF True] "1.prems" by simp
    show ?thesis
    proof (cases "i + 1 \<le> int k \<and> int k \<le> j - 1")
      case inner: True
      then have "nat (i + j - int k) \<noteq> nat i" "nat (i + j - int k) \<noteq> nat j"
        using "1.prems" by auto
      then show ?thesis
        using inner IH unfold "1.prems" by simp
    next
      case outer: False
      consider "int k = i" | "int k = j" "int k \<noteq> i" | "int k < i" | "int k > j"
        using outer by linarith
      then show ?thesis
      proof cases
        case 1
        then have "k = nat i" by simp
        then show ?thesis
          using outer IH unfold "1.prems" True 1 by (auto simp: nth_list_update)
      next
        case 2
        then have "k = nat j" "nat j \<noteq> nat i" using "1.prems" by auto
        then show ?thesis
          using outer IH unfold "1.prems" True 2 by (auto simp: nth_list_update)
      next
        case 3
        then have "k \<noteq> nat i" "k \<noteq> nat j" using "1.prems" True by auto
        then show ?thesis
          using outer IH unfold "1.prems" True 3 by (auto simp: nth_list_update)
      next
        case 4
        then have "k \<noteq> nat i" "k \<noteq> nat j" using "1.prems" True by auto
        then show ?thesis
          using outer IH unfold "1.prems" True 4 by (auto simp: nth_list_update)
      qed
    qed
  next
    case False
    then have "reverseLoop i j ids = ids" by (subst reverseLoop.simps) simp
    with False show ?thesis by auto
  qed
qed

lemma reverseInPlace_rev: "reverseInPlace xs = rev xs"
proof (rule nth_equalityI)
  show "length (reverseInPlace xs) = length (rev xs)"
    by (simp add: reverseInPlace_def reverseLoop_length)
next
  fix k assume "k < length (reverseInPlace xs)"
  then have k: "k < length xs" by (simp add: reverseInPlace_def reverseLoop_length)
  then have "reverseInPlace xs ! k = xs ! nat (int (length xs) - 1 - int k)"
    unfolding reverseInPlace_def by (subst reverseLoop_nth) auto
  moreover have "nat (int (length xs) - 1 - int k) = length xs - Suc k"
    using k by linarith
  ultimately show "reverseInPlace xs ! k = rev xs ! k"
    using k by (simp add: rev_nth)
qed

section \<open>The alpha member round trip\<close>

text \<open>
  C7. For every value and every identifier without a space, the member
  \<^verbatim>\<open>"<value> <id>"\<close> decodes to the identifier: the piece after the last space is the
  identifier, whether or not the value itself contains spaces.
\<close>

theorem C7_alpha_member_roundtrip:
  "CHR '' '' \<notin> set ident \<Longrightarrow>
   extractModelIdFromAlphaIndexValue (v @ '' '' @ ident) = ident"
  by (simp add: extractModelIdFromAlphaIndexValue_def Split_append_last)

theorem C7_alpha_member_roundtrip_witness:
  "CHR '' '' \<notin> set ''id42'' \<and>
   extractModelIdFromAlphaIndexValue (''New York'' @ '' '' @ ''id42'') = ''id42''"
proof -
  have h: "CHR '' '' \<notin> set ''id42''" by simp
  show ?thesis using h C7_alpha_member_roundtrip [OF h, of "''New York''"] by simp
qed

section \<open>The set combinator\<close>

text \<open>
  C5. Intersecting an anchor list with a second list keeps exactly the anchor's elements
  that occur in the second list, in the anchor's order; intersecting it in turn with every
  list of a collection keeps exactly the anchor's elements that occur in every one of them,
  again in the anchor's order. The functions return a new list and their arguments are
  values, so neither input changes.
\<close>

theorem C5_ordered_intersection:
  "orderedIntersectStrings anchor second = filter (\<lambda>a. a \<in> set second) anchor \<and>
   intersectAll anchor secs = filter (\<lambda>a. \<forall>s \<in> set secs. a \<in> set s) anchor"
  by (simp only: orderedIntersectStrings_filter intersectAll_filter)

theorem C5_ordered_intersection_witness:
  "orderedIntersectStrings [''5'', ''3'', ''1'', ''4''] [''4'', ''1'', ''9''] = [''1'', ''4''] \<and>
   intersectAll [''5'', ''3'', ''1'', ''4''] [[''4'', ''1'', ''9'']] = [''1'', ''4'']"
  using C5_ordered_intersection
    [of "[''5'', ''3'', ''1'', ''4'']" "[''4'', ''1'', ''9'']" "[[''4'', ''1'', ''9'']]"]
  by simp

section \<open>The registries after unregistering\<close>

text \<open>
  C10. When \<open>Register\<close> has succeeded for a type and a name, \<open>UnregisterName\<close> for that name
  succeeds and removes the name-to-type and type-to-name entries, but the model-spec entry
  stays: a query constructed for the name afterwards finds the spec and records no
  model-name-not-registered error.
\<close>

theorem C10_unregister_keeps_model_spec:
  "Register typ name reg = Inr reg1 \<Longrightarrow>
   \<exists>reg2. UnregisterName name reg1 = Inr reg2 \<and>
          nameToType reg2 name = None \<and>
          typeToName reg2 typ = None \<and>
          modelSpecs reg2 name \<noteq> None \<and>
          err (NewQuery reg2 name) = None"
  by (auto simp: Register_def UnregisterName_def NewQuery_def emptyQuery_def
           split: if_splits sum.splits)

theorem C10_unregister_keeps_model_spec_witness:
  "\<exists>reg1 reg2. Register personType ''Person'' emptyRegistry = Inr reg1 \<and>
     UnregisterName ''Person'' reg1 = Inr reg2 \<and>
     nameToType reg2 ''Person'' = None \<and>
     modelSpecs reg2 ''Person'' \<noteq> None \<and>
     err (NewQuery reg2 ''Person'') = None"
proof -
  have "\<exists>reg1. Register personType ''Person'' emptyRegistry = Inr reg1"
    by (simp add: Register_def personType_def emptyRegistry_def alreadyRegisteredType_def
          alreadyRegisteredName_def compileModelSpec_def typeIsSliceOrArray_def
          emptyModelSpec_def)
  then obtain reg1 where r: "Register personType ''Person'' emptyRegistry = Inr reg1" ..
  from C10_unregister_keeps_model_spec [OF r] r show ?thesis by blast
qed

section \<open>Filters on the identifier field\<close>

lemma splitFilterString_Id:
  "CHR '' '' \<notin> set operator \<Longrightarrow> splitFilterString (''Id '' @ operator) = Inr (''Id'', operator)"
  using Split_append_last [of "CHR '' ''" operator "''Id''"]
  by (simp add: splitFilterString_def)

text \<open>
  C8. A filter on the field \<open>Id\<close> is accepted only with the operator \<open>=\<close> and a value of
  string kind: then the filter by id is appended, and evaluating it returns the one-element
  list holding the given id, with the store state and the command log unchanged. With any
  other operator, or a value that is not a string, no filter is appended and the sticky
  error is set (to the operator error, or else the value error, when none was set before).
\<close>

theorem C8_identifier_filter:
  fixes R :: "'st store"
  assumes "CHR '' '' \<notin> set operator"
  shows "Filter (''Id '' @ operator) v q = filterById operator v q \<and>
    (if operator = ''='' \<and> kindOf (TypeOf v) = KString
     then filterById operator v q = q\<lparr>filters := filters q @ [idFilter v]\<rparr> \<and>
          (\<exists>s. v = VStr s \<and> getIds R mName od (idFilter v) w = (Inr [s], w))
     else filters (filterById operator v q) = filters q \<and>
          err (filterById operator v q) \<noteq> None \<and>
          (err q = None \<longrightarrow>
             err (filterById operator v q) =
               Some (if operator \<noteq> ''='' then ErrIdOperator
                     else ErrIdNotString (kindOf (TypeOf v)))))"
proof -
  have a: "Filter (''Id '' @ operator) v q = filterById operator v q"
    by (simp only: Filter_def splitFilterString_Id [OF assms]) simp
  have b: "operator = ''='' \<and> kindOf (TypeOf v) = KString \<Longrightarrow>
      filterById operator v q = q\<lparr>filters := filters q @ [idFilter v]\<rparr>"
    by (simp add: filterById_def idFilter_def Let_def)
  have c: "kindOf (TypeOf v) = KString \<Longrightarrow>
      \<exists>s. v = VStr s \<and> getIds R mName od (idFilter v) w = (Inr [s], w)"
    by (cases v) (simp_all add: getIds_def idFilter_def Value_String_def)
  have d: "\<not> (operator = ''='' \<and> kindOf (TypeOf v) = KString) \<Longrightarrow>
      filters (filterById operator v q) = filters q \<and>
      err (filterById operator v q) \<noteq> None \<and>
      (err q = None \<longrightarrow>
         err (filterById operator v q) =
           Some (if operator \<noteq> ''='' then ErrIdOperator
                 else ErrIdNotString (kindOf (TypeOf v))))"
    by (auto simp: filterById_def setErrorIfNone_def Let_def)
  show ?thesis
  proof (cases "operator = ''='' \<and> kindOf (TypeOf v) = KString")
    case True
    show ?thesis by (subst if_P [OF True]) (use a b c True in blast)
  next
    case False
    show ?thesis by (subst if_not_P [OF False]) (use a d False in blast)
  qed
qed

theorem C8_identifier_filter_witness:
  "CHR '' '' \<notin> set ''='' \<and>
   Filter ''Id ='' (VStr ''abc123'') personQuery =
     personQuery\<lparr>filters := [idFilter (VStr ''abc123'')]\<rparr> \<and>
   getIds brokenStore ''Person'' emptyOrder (idFilter (VStr ''abc123'')) ((), []) =
     (Inr [''abc123''], ((), [])) \<and>
   err (Filter ''Id !='' (VStr ''abc123'') personQuery) = Some ErrIdOperator \<and>
   err (Filter ''Id ='' (VInt 7) personQuery) = Some (ErrIdNotString KInt)"
proof -
  have h1: "CHR '' '' \<notin> set ''=''" by simp
  have h2: "CHR '' '' \<notin> set ''!=''" by simp
  have q: "err personQuery = None" "filters personQuery = []"
    by (simp_all add: personQuery_def emptyQuery_def)
  show ?thesis
    using C8_identifier_filter [OF h1, of "VStr ''abc123''" personQuery brokenStore
        "''Person''" emptyOrder "((), [])"]
      C8_identifier_filter [OF h2, of "VStr ''abc123''" personQuery brokenStore
        "''Person''" emptyOrder "((), [])"]
      C8_identifier_filter [OF h1, of "VInt 7" personQuery brokenStore
        "''Person''" emptyOrder "((), [])"]
      q
    by simp
qed

section \<open>Filters on boolean and numeric indexes\<close>

lemma doStrings_log: "snd (snd (doStrings R c w)) = snd w @ [c]"
  by (simp add: doStrings_def Do_def split: prod.splits)

lemma doStrings_unfold:
  "doStrings R c w = (redis_Strings (fst (R c (fst w))), (snd (R c (fst w)), snd w @ [c]))"
  by (simp add: doStrings_def Do_def split: prod.splits)

lemma exec_two:
  "exec R [c1, c2] w =
     ([fst (R c1 (fst w)), fst (R c2 (snd (R c1 (fst w))))],
      (snd (R c2 (snd (R c1 (fst w)))), snd w @ [c1, c2]))"
  by (simp add: Do_def split: prod.splits)

text \<open>
  C9. For a filter on a boolean index, \<open><\<close> against false and \<open>>\<close> against true return the
  empty id list at once, leaving the store state and the command log as they were. Every
  other comparison sends exactly one score-range command (reversed when the query is
  ordered descending by the filter's own field) whose two bounds are among the scores 0
  and 1, and returns its reply.
\<close>

theorem C9_boolean_filter:
  fixes R :: "'st store"
  assumes "qfilter.indexType f = indexBoolean" and "\<not> byId f" and "filterValue f = VBool b"
  shows
    "let key = mName @ '':'' @ qfilter.redisName f;
         reverse = (orderType od = descending \<and> qorder.fieldName od = qfilter.fieldName f)
     in if (filterType f = less_op \<and> \<not> b) \<or> (filterType f = greater_op \<and> b)
        then getIds R mName od f w = (Inr [], w)
        else \<exists>lo hi c. lo \<in> {0, 1} \<and> hi \<in> {0, 1} \<and> lo \<le> hi \<and>
               c = (if reverse then ZREVRANGEBYSCORE key (Incl (VInt hi)) (Incl (VInt lo))
                    else ZRANGEBYSCORE key (Incl (VInt lo)) (Incl (VInt hi))) \<and>
               getIds R mName od f w = doStrings R c w \<and>
               snd (snd (getIds R mName od f w)) = snd w @ [c]"
  using assms
  by (cases "filterType f"; cases b)
     (simp_all add: getIds_def getIdsBoolean_def Value_Bool_def Let_def doStrings_log)


theorem C9_boolean_filter_witness:
  "qfilter.indexType (activeFilter less_op False) = indexBoolean \<and>
   \<not> byId (activeFilter less_op False) \<and>
   filterValue (activeFilter less_op False) = VBool False \<and>
   getIds brokenStore ''Person'' emptyOrder (activeFilter less_op False) ((), []) =
     (Inr [], ((), [])) \<and>
   getIds brokenStore ''Person'' emptyOrder (activeFilter greater_op True) ((), []) =
     (Inr [], ((), [])) \<and>
   snd (snd (getIds brokenStore ''Person'' emptyOrder (activeFilter lessOrEqual True) ((), []))) =
     [ZRANGEBYSCORE ''Person:Active'' (Incl (VInt 0)) (Incl (VInt 1))]"
  using C9_boolean_filter [where f = "activeFilter less_op False" and b = False
      and R = brokenStore and mName = "''Person''" and od = emptyOrder and w = "((), [])"]
    C9_boolean_filter [where f = "activeFilter greater_op True" and b = True
      and R = brokenStore and mName = "''Person''" and od = emptyOrder and w = "((), [])"]
    C9_boolean_filter [where f = "activeFilter lessOrEqual True" and b = True
      and R = brokenStore and mName = "''Person''" and od = emptyOrder and w = "((), [])"]
  by (simp add: activeFilter_def emptyOrder_def Let_def getIds_def getIdsBoolean_def
        Value_Bool_def doStrings_def Do_def brokenStore_def)

text \<open>
  C4. For a filter on a numeric index with value \<open>v\<close>, each of \<open>=\<close>, \<open><\<close>, \<open>>\<close>, \<open><=\<close>,
  \<open>>=\<close> sends exactly one score-range command with the bounds \<open>[v, v]\<close>, \<open>[-inf, (v]\<close>,
  \<open>[(v, +inf]\<close>, \<open>[-inf, v]\<close>, \<open>[v, +inf]\<close> and returns its reply; the scan is a reverse
  one with the bounds swapped when the query is ordered descending by the filter's own
  field. \<open>!=\<close> sends the two commands for \<open>< v\<close> and \<open>> v\<close>, in that order; when both
  reply with id lists, the result is the smaller ids followed by the greater ids for a
  forward scan, and the greater ids reversed followed by the smaller ids reversed for a
  descending one.
\<close>

theorem C4_numeric_filter:
  fixes R :: "'st store"
  assumes "qfilter.indexType f = indexNumeric" and "\<not> byId f"
  shows
    "let v = filterValue f;
         key = mName @ '':'' @ qfilter.redisName f;
         reverse = (orderType od = descending \<and> qorder.fieldName od = qfilter.fieldName f);
         one = (\<lambda>lo hi.
                  let c = (if reverse then ZREVRANGEBYSCORE key hi lo
                           else ZRANGEBYSCORE key lo hi)
                  in getIds R mName od f w = doStrings R c w \<and>
                     snd (snd (getIds R mName od f w)) = snd w @ [c])
     in (filterType f = equal_op \<longrightarrow> one (Incl v) (Incl v)) \<and>
        (filterType f = less_op \<longrightarrow> one NegInf (Excl v)) \<and>
        (filterType f = greater_op \<longrightarrow> one (Excl v) PosInf) \<and>
        (filterType f = lessOrEqual \<longrightarrow> one NegInf (Incl v)) \<and>
        (filterType f = greaterOrEqual \<longrightarrow> one (Incl v) PosInf) \<and>
        (filterType f = notEqual \<longrightarrow>
           (let c1 = ZRANGEBYSCORE key NegInf (Excl v);
                c2 = ZRANGEBYSCORE key (Excl v) PosInf;
                a1 = R c1 (fst w);
                a2 = R c2 (snd a1)
            in snd (getIds R mName od f w) = (snd a2, snd w @ [c1, c2]) \<and>
               (\<forall>lessIds greaterIds.
                  fst a1 = Inr (RStrings lessIds) \<and> fst a2 = Inr (RStrings greaterIds) \<longrightarrow>
                  fst (getIds R mName od f w) =
                    Inr (if reverse then rev greaterIds @ rev lessIds
                         else lessIds @ greaterIds))))"
proof -
  have single: "filterType f \<noteq> notEqual \<Longrightarrow> ?thesis"
    using assms
    by (cases "filterType f")
       (simp_all add: getIds_def getIdsNumeric_def Let_def doStrings_log)
  have split: "filterType f = notEqual \<Longrightarrow> ?thesis"
    using assms
    by (auto simp: getIds_def getIdsNumeric_def Let_def exec_two reverseInPlace_rev
             simp del: exec.simps split: sum.splits)
  from single split show ?thesis by blast
qed


theorem C4_numeric_filter_witness:
  "qfilter.indexType (ageFilter notEqual 30) = indexNumeric \<and>
   \<not> byId (ageFilter notEqual 30) \<and>
   fst (getIds redisModel ''Person'' emptyOrder (ageFilter notEqual 30) (ageStore, [])) =
     Inr [''a'', ''d''] \<and>
   fst (getIds redisModel ''Person'' (ageOrder descending) (ageFilter notEqual 30)
          (ageStore, [])) = Inr [''d'', ''a''] \<and>
   snd (snd (getIds redisModel ''Person'' (ageOrder descending) (ageFilter less_op 30)
          (ageStore, []))) = [ZREVRANGEBYSCORE ''Person:Age'' (Excl (VInt 30)) NegInf]"
  using C4_numeric_filter [where f = "ageFilter notEqual 30" and R = redisModel
      and mName = "''Person''" and od = emptyOrder and w = "(ageStore, [])"]
    C4_numeric_filter [where f = "ageFilter notEqual 30" and R = redisModel
      and mName = "''Person''" and od = "ageOrder descending" and w = "(ageStore, [])"]
    C4_numeric_filter [where f = "ageFilter less_op 30" and R = redisModel
      and mName = "''Person''" and od = "ageOrder descending" and w = "(ageStore, [])"]
  by (simp add: ageFilter_def ageOrder_def emptyOrder_def ageStore_def Let_def
        doStrings_def Do_def)

section \<open>Counting with limit and offset\<close>

declare bitlen.simps [simp del]

lemma bitlen_le_iff: "bitlen n \<le> k \<longleftrightarrow> n < 2 ^ k"
proof (induction n arbitrary: k rule: bitlen.induct)
  case (1 n)
  show ?case
  proof (cases "n = 0")
    case True
    then show ?thesis by (simp add: bitlen.simps [of 0])
  next
    case False
    note IH = "1.IH" [OF False]
    show ?thesis
    proof (cases k)
      case 0
      with False show ?thesis by (simp add: bitlen.simps [of n])
    next
      case (Suc k')
      have "bitlen n \<le> Suc k' \<longleftrightarrow> bitlen (n div 2) \<le> k'"
        using False by (simp add: bitlen.simps [of n])
      also have "\<dots> \<longleftrightarrow> n div 2 < 2 ^ k'" by (rule IH)
      also have "\<dots> \<longleftrightarrow> n < 2 ^ Suc k'" by auto
      finally show ?thesis using Suc by simp
    qed
  qed
qed

lemma round53_small: "n < 2 ^ 53 \<Longrightarrow> round53 n = n"
  using bitlen_le_iff [of n 53] by (simp add: round53_def)

lemma round53_large:
  assumes "2 ^ 53 \<le> n"
  shows "2 ^ 53 \<le> round53 n"
proof -
  define b where "b = bitlen n"
  define k where "k = b - 53"
  have b53: "53 < b" using bitlen_le_iff [of n 53] assms by (simp add: b_def)
  then have k1: "1 \<le> k" and bk: "b = k + 53" by (simp_all add: k_def)
  have "\<not> bitlen n \<le> b - 1" using b53 by (simp add: b_def)
  then have lower: "2 ^ (b - 1) \<le> n" using bitlen_le_iff [of n "b - 1"] by simp
  have "b - 1 = 52 + k" using bk by simp
  then have "(2::nat) ^ (b - 1) = 2 ^ 52 * 2 ^ k"
    by (simp only: power_add)
  then have "2 ^ 52 * 2 ^ k \<le> n" using lower by simp
  then have q: "2 ^ 52 \<le> n div 2 ^ k"
    by (simp add: less_eq_div_iff_mult_less_eq)
  define q' where "q' = (if n mod 2 ^ k > 2 ^ (k - 1) \<or> (n mod 2 ^ k = 2 ^ (k - 1) \<and> odd (n div 2 ^ k))
                         then n div 2 ^ k + 1 else n div 2 ^ k)"
  have q'q: "2 ^ 52 \<le> q'" using q by (simp add: q'_def)
  have r: "round53 n = q' * 2 ^ k"
    using b53 by (simp add: round53_def Let_def b_def [symmetric] k_def [symmetric] q'_def)
  have "(2::nat) ^ 53 = 2 ^ 52 * 2 ^ 1" by simp
  also have "\<dots> \<le> 2 ^ 52 * 2 ^ k"
    using k1 by (intro mult_le_mono2 power_increasing) simp_all
  also have "\<dots> \<le> q' * 2 ^ k" using q'q by (rule mult_le_mono1)
  finally show ?thesis using r by simp
qed

lemma float64_of_int_small: "0 \<le> x \<Longrightarrow> x < 2 ^ 53 \<Longrightarrow> float64_of_int x = x"
proof -
  assume a: "0 \<le> x" "x < 2 ^ 53"
  then have "nat \<bar>x\<bar> < 2 ^ 53" by (simp add: nat_less_iff)
  then have "round53 (nat \<bar>x\<bar>) = nat \<bar>x\<bar>" by (rule round53_small)
  then show ?thesis using a by (cases "x = 0") (simp_all add: float64_of_int_def)
qed

lemma float64_of_int_large: "2 ^ 53 \<le> x \<Longrightarrow> 2 ^ 53 \<le> float64_of_int x"
proof -
  assume a: "2 ^ 53 \<le> x"
  then have "2 ^ 53 \<le> nat \<bar>x\<bar>" by (simp add: le_nat_iff)
  then have "2 ^ 53 \<le> round53 (nat \<bar>x\<bar>)" by (rule round53_large)
  then have "int (2 ^ 53) \<le> int (round53 (nat \<bar>x\<bar>))" by (simp only: of_nat_le_iff)
  then have "2 ^ 53 \<le> int (round53 (nat \<bar>x\<bar>))" by simp
  moreover have "sgn x = 1" using a by simp
  ultimately show ?thesis by (simp add: float64_of_int_def)
qed

lemma min_float64:
  assumes "0 \<le> a" "a < 2 ^ 53" "0 \<le> l"
  shows "min (float64_of_int a) (float64_of_int l) = min a l"
proof (cases "l < 2 ^ 53")
  case True
  then show ?thesis using assms by (simp add: float64_of_int_small)
next
  case False
  then have "2 ^ 53 \<le> float64_of_int l" by (intro float64_of_int_large) simp
  then show ?thesis using assms False by (simp add: float64_of_int_small)
qed


lemma uint_small: "0 \<le> X \<Longrightarrow> X < 2 ^ 53 \<Longrightarrow> uint (word_of_int X :: 64 word) = X"
proof -
  assume a: "0 \<le> X" "X < 2 ^ 53"
  then have "X < 2 ^ 64" by simp
  with a show ?thesis by (simp add: uint_word_of_int)
qed

lemma sint_small: "0 \<le> X \<Longrightarrow> X < 2 ^ 53 \<Longrightarrow> sint (word_of_int X :: 64 word) = X"
proof -
  assume a: "0 \<le> X" "X < 2 ^ 53"
  then have "- (2 ^ 63) \<le> X" "X < 2 ^ 63" by simp_all
  then show ?thesis by (simp add: sint_sbintrunc' signed_take_bit_int_eq_self)
qed

text \<open>
  C6. For a query without sticky error that has an order, when the cardinality command on
  the order field's index replies \<open>count\<close> (at least 0 and below \<open>2^53\<close>, far above the
  largest cardinality a store can report), \<open>Count\<close> sends that one command and nothing
  else, and returns 0 when the offset exceeds the count, the count minus the offset when
  the limit is 0, and the smaller of the limit and the count minus the offset otherwise.
  The filters of the query play no part.
\<close>

theorem C6_count_clamp:
  fixes R :: "'st store"
  assumes noerr: "err q = None"
    and ordered: "qorder.fieldName (order q) \<noteq> []"
    and card: "R (ZCARD (modelName (modelSpec q) @ '':'' @ qorder.redisName (order q))) (fst w)
               = (Inr (RInt count), s')"
    and lower: "0 \<le> count" and upper: "count < 2 ^ 53"
  shows "\<exists>n. Count R q w =
              (Inr n, (s', snd w @
                 [ZCARD (modelName (modelSpec q) @ '':'' @ qorder.redisName (order q))])) \<and>
             sint n =
               (if uint (offset q) > count then 0
                else if limit q = 0 then count - uint (offset q)
                else min (count - uint (offset q)) (uint (limit q)))"
proof -
  define key where "key = modelName (modelSpec q) @ '':'' @ qorder.redisName (order q)"
  define cw :: "64 word" where "cw = word_of_int count"
  define W where "W = (s', snd w @ [ZCARD key])"
  have do: "Do R (ZCARD key) w = (Inr (RInt count), W)"
    using card by (simp add: Do_def key_def W_def)
  have "- (2 ^ 63) \<le> count" "count < 2 ^ 63" using lower upper by simp_all
  then have ri: "redis_Int (Inr (RInt count)) = Inr cw" by (simp add: cw_def)
  have ucw: "uint cw = count" unfolding cw_def using lower upper by (rule uint_small)
  have gt: "offset q > cw \<longleftrightarrow> uint (offset q) > count"
    by (simp add: word_less_def ucw)
  have unfold: "Count R q w =
      (if limit q = 0 \<and> offset q = 0 then (Inr cw, W)
       else if offset q > cw then (Inr 0, W)
       else if limit q = 0 then (Inr (cw - offset q), W)
       else (Inr (int_of_float64
                    (min (float64_of_int (sint (cw - offset q)))
                         (float64_of_int (uint (limit q))))), W))"
    using noerr ordered ri
    by (simp add: Count_def getIdCount_def Let_def do [unfolded key_def, simplified])
  show ?thesis
  proof (cases "uint (offset q) > count")
    case True
    then have "offset q \<noteq> 0" using lower by auto
    with True gt unfold have "Count R q w = (Inr 0, W)" by simp
    with True show ?thesis by (simp add: W_def key_def)
  next
    case False
    define a where "a = count - uint (offset q)"
    have "0 \<le> uint (offset q)" by simp
    then have a: "0 \<le> a" "a < 2 ^ 53" using False upper unfolding a_def by linarith+
    have "uint (offset q) \<le> uint cw" using False ucw by simp
    then have "cw - offset q = word_of_int (uint cw - uint (offset q))" by simp
    then have sub: "cw - offset q = word_of_int a" by (simp add: ucw a_def)
    have ssub: "sint (cw - offset q) = a" unfolding sub using a by (rule sint_small)
    show ?thesis
    proof (cases "limit q = 0")
      case lim0: True
      have "Count R q w = (Inr (cw - offset q), W)"
      proof (cases "offset q = 0")
        case True
        with lim0 unfold show ?thesis by simp
      next
        case False
        with lim0 unfold gt \<open>\<not> count < uint (offset q)\<close> show ?thesis by simp
      qed
      with ssub False lim0 show ?thesis by (simp add: W_def key_def a_def)
    next
      case limpos: False
      define m where "m = min a (uint (limit q))"
      have m: "0 \<le> m" "m < 2 ^ 53" using a by (simp_all add: m_def)
      have "min (float64_of_int (sint (cw - offset q))) (float64_of_int (uint (limit q))) = m"
        unfolding ssub m_def using a by (intro min_float64) simp_all
      moreover have "int_of_float64 m = word_of_int m"
        using m by (simp add: int_of_float64_def)
      ultimately have "Count R q w = (Inr (word_of_int m), W)"
        using unfold limpos gt False by simp
      moreover have "sint (word_of_int m :: 64 word) = m" using m by (rule sint_small)
      ultimately show ?thesis using False limpos by (simp add: W_def key_def m_def a_def)
    qed
  qed
qed

theorem C6_count_clamp_witness:
  "(\<exists>n. Count hundredStore (chain personQuery [MOrder ''Age'', MLimit 10, MOffset 95]) ((), []) =
          (Inr n, ((), [ZCARD ''Person:Age''])) \<and> sint n = 5) \<and>
   (\<exists>n. Count hundredStore (chain personQuery [MOrder ''Age'', MLimit 10, MOffset 150]) ((), []) =
          (Inr n, ((), [ZCARD ''Person:Age''])) \<and> sint n = 0)"
proof -
  define q1 where "q1 = chain personQuery [MOrder ''Age'', MLimit 10, MOffset 95]"
  define q2 where "q2 = chain personQuery [MOrder ''Age'', MLimit 10, MOffset 150]"
  have e: "chain personQuery [MOrder ''Age'', MLimit 10, MOffset k] =
      personQuery\<lparr>order := ageOrder ascending, limit := 10, offset := k\<rparr>" for k
    by (simp add: chain_def Order_def Limit_def Offset_def personQuery_def emptyQuery_def
          emptyOrder_def personSpec_def field_def indexTypeForField_def
          redisNameForFieldName_def ageOrder_def)
  have p: "err personQuery = None" "modelName (modelSpec personQuery) = ''Person''"
    by (simp_all add: personQuery_def emptyQuery_def personSpec_def)
  have h: "hundredStore c () = (Inr (RInt 100), ())" for c
    by (simp add: hundredStore_def)
  show ?thesis
    using C6_count_clamp [where R = hundredStore and w = "((), [])" and count = 100
        and s' = "()" and q = "chain personQuery [MOrder ''Age'', MLimit 10, MOffset 95]"]
      C6_count_clamp [where R = hundredStore and w = "((), [])" and count = 100
        and s' = "()" and q = "chain personQuery [MOrder ''Age'', MLimit 10, MOffset 150]"]
    by (simp add: e p h ageOrder_def)
qed

section \<open>The sticky error of the builder\<close>


lemma setErrorIfNone_set: "err q = None \<Longrightarrow> err (setErrorIfNone e q) = Some e"
  by (simp add: setErrorIfNone_def)














section \<open>Offset without an order\<close>

text \<open>Without filters the id finishers reject an offset on a query without order, and
  \<open>Count\<close> rejects it whether or not there are filters.\<close>

lemma offset_without_order_unfiltered:
  fixes R :: "'st store"
  assumes "err q = None" and "filters q = []" and "qorder.fieldName (order q) = []"
    and "offset q \<noteq> 0"
  shows "IdsOnly R iter q w = (Inl ErrOffsetWithoutOrder, w)"
    and "Count R q w = (Inl ErrOffsetWithoutOrder, w)"
  using assms
  by (simp_all add: IdsOnly_def GetIds_def getIdsWithoutFilters_def Count_def getIdCount_def)

text \<open>
  C2 says that a query with an offset and no order is rejected by every finisher whether
  or not it has filters. With a filter the code does not do so: for the query with the
  filter \<open>Id = "abc"\<close>, offset 5 and no order, \<open>IdsOnly\<close> returns the id and no error,
  and \<open>Run\<close> hydrates without error, the offset being ignored.
\<close>

theorem C2_offset_with_filter_not_rejected:
  "err offsetFilterQuery = None \<and>
   offset offsetFilterQuery = 5 \<and>
   qorder.fieldName (order offsetFilterQuery) = [] \<and>
   IdsOnly brokenStore insertionOrder offsetFilterQuery ((), []) = (Inr [''abc''], ((), [])) \<and>
   Run brokenStore insertionOrder noHydration offsetFilterQuery ((), []) =
     ((Some [], None), ((), []))"
  by (simp add: offsetFilterQuery_def chain_def Filter_def splitFilterString_def filterById_def
        Offset_def personQuery_def emptyQuery_def emptyOrder_def IdsOnly_def Run_def GetIds_def
        getIdsWithFilters_def getIds_def Value_String_def insertionOrder_def intersectAll_def
        orderedIntersectStrings_filter noHydration_def Let_def)

section \<open>Filters on alpha indexes\<close>

text \<open>
  The rank ranges read by an alpha filter once the sentinel batch has produced
  \<open>beforeRank\<close> and \<open>afterRank\<close>: equality reads \<open>[beforeRank, afterRank - 2]\<close> unless
  \<open>beforeRank + 1 = afterRank\<close>, when it returns the empty list; \<open>>\<close> reads from
  \<open>afterRank - 1\<close> to the end; \<open><\<close> reads \<open>[0, beforeRank - 1]\<close> provided that
  \<open>afterRank > 2\<close>.
\<close>

lemma alpha_filter_ranges:
  fixes R :: "'st store"
  assumes "qfilter.indexType f = indexAlpha" and "\<not> byId f"
    and "getAlphaRanks R (mName @ '':'' @ qfilter.redisName f) f w = (Inr (beforeRank, afterRank), w1)"
    and "decode = (\<lambda>raw. if orderType od = descending \<and> qorder.fieldName od = qfilter.fieldName f
                          then rev (map extractModelIdFromAlphaIndexValue raw)
                          else map extractModelIdFromAlphaIndexValue raw)"
  shows "filterType f = equal_op \<Longrightarrow>
           getIds R mName od f w =
             (if beforeRank + 1 = afterRank then (Inr [], w1)
              else case doStrings R (ZRANGE (mName @ '':'' @ qfilter.redisName f)
                                       (sint beforeRank) (sint (afterRank - 2))) w1 of
                     (Inl e, w2) \<Rightarrow> (Inl e, w2)
                   | (Inr raw, w2) \<Rightarrow> (Inr (decode raw), w2))"
    and "filterType f = greater_op \<Longrightarrow>
           getIds R mName od f w =
             (case doStrings R (ZRANGE (mName @ '':'' @ qfilter.redisName f)
                                  (sint (afterRank - 1)) (- 1)) w1 of
                (Inl e, w2) \<Rightarrow> (Inl e, w2)
              | (Inr raw, w2) \<Rightarrow> (Inr (decode raw), w2))"
    and "filterType f = less_op \<Longrightarrow> 2 < sint afterRank \<Longrightarrow>
           getIds R mName od f w =
             (case doStrings R (ZRANGE (mName @ '':'' @ qfilter.redisName f)
                                  0 (sint (beforeRank - 1))) w1 of
                (Inl e, w2) \<Rightarrow> (Inl e, w2)
              | (Inr raw, w2) \<Rightarrow> (Inr (decode raw), w2))"
  using assms
  by (auto simp: getIds_def getIdsAlpha_def Let_def reverseInPlace_rev
           split: prod.splits sum.splits)

text \<open>On the index holding apple, banana, banana, cherry with the ids 1 to 4, the
  filters \<open>=\<close>, \<open><\<close> and \<open>>\<close> on banana return the ids 2 and 3, the id 1 and the id 4.\<close>

lemma alpha_example_fruit:
  "fst (getIds redisModel ''Fruit'' emptyOrder (nameFilter equal_op ''banana'') (fruitStore, []))
     = Inr [''2'', ''3'']"
  "fst (getIds redisModel ''Fruit'' emptyOrder (nameFilter less_op ''banana'') (fruitStore, []))
     = Inr [''1'']"
  "fst (getIds redisModel ''Fruit'' emptyOrder (nameFilter greater_op ''banana'') (fruitStore, []))
     = Inr [''4'']"
  by code_simp+

text \<open>
  C3 says that \<open><\<close> reads the rank range \<open>[0, beforeRank - 1]\<close> for every alpha filter.
  The guard of the code, \<open>afterRank <= 2\<close>, returns the empty list instead whenever at most
  one member lies below the second sentinel: on the index holding apple and cherry only,
  the batch gives \<open>beforeRank = 1\<close> and \<open>afterRank = 2\<close>, the filter \<open>< banana\<close> returns
  no id and sends no range command, although the range \<open>[0, 0]\<close> holds apple.
\<close>

theorem C3_less_than_guard:
  "fst (getAlphaRanks redisModel ''Fruit:Name'' (nameFilter less_op ''banana'') (smallStore, []))
     = Inr (1, 2) \<and>
   fst (getIds redisModel ''Fruit'' emptyOrder (nameFilter less_op ''banana'') (smallStore, []))
     = Inr [] \<and>
   snd (snd (getIds redisModel ''Fruit'' emptyOrder (nameFilter less_op ''banana'')
               (smallStore, [])))
     = [ZADD ''Fruit:Name'' 0 ''banana'', ZADD ''Fruit:Name'' 0 (''banana'' @ delString),
        ZRANK ''Fruit:Name'' ''banana'', ZRANK ''Fruit:Name'' (''banana'' @ delString),
        ZREM ''Fruit:Name'' [''banana'', ''banana'' @ delString]] \<and>
   fst (redisModel (ZRANGE ''Fruit:Name'' 0 0) smallStore) = Inr (RStrings [''apple 1''])"
  by code_simp

text \<open>The same guard fails in the other direction: on the index holding banana, banana,
  cherry no member is below banana, the batch gives \<open>beforeRank = 0\<close> and
  \<open>afterRank = 3\<close>, the guard lets the range \<open>[0, -1]\<close> through and \<open>< banana\<close> returns
  every id.\<close>

lemma alpha_less_than_reads_whole_set:
  "fst (getAlphaRanks redisModel ''Fruit:Name'' (nameFilter less_op ''banana'') (bananaStore, []))
     = Inr (0, 3)"
  "fst (getIds redisModel ''Fruit'' emptyOrder (nameFilter less_op ''banana'') (bananaStore, []))
     = Inr [''2'', ''3'', ''4'']"
  by code_simp+

section \<open>The anchored intersection inside a query\<close>

text \<open>With an order and a filter on the order field, the result of the query is the id list
  of that filter restricted to the ids found by every other filter, whatever the order in
  which the map of id lists is enumerated.\<close>

lemma anchored_intersection_in_query:
  fixes R :: "'st store"
  assumes "collectIdSets R (modelName (modelSpec q)) (order q) (filters q) [] w
             = (Inr (Some idSets), w1)"
    and "qorder.fieldName (order q) \<noteq> []"
    and "map_of idSets (qorder.fieldName (order q)) = Some primaryIds"
    and "set (iter idSets) = set idSets"
  shows "getIdsWithFilters R iter q w =
           (Inr (filter (\<lambda>a. \<forall>(fname, oIds) \<in> set idSets.
                            fname \<noteq> qorder.fieldName (order q) \<longrightarrow> a \<in> set oIds)
                   primaryIds), w1)"
proof -
  have "(\<forall>s \<in> set (map snd (filter (\<lambda>(fname, oIds). fname \<noteq> qorder.fieldName (order q))
                                  (iter idSets))). a \<in> set s) \<longleftrightarrow>
        (\<forall>(fname, oIds) \<in> set idSets. fname \<noteq> qorder.fieldName (order q) \<longrightarrow> a \<in> set oIds)"
    for a
    using assms(4) by force
  then show ?thesis
    using assms(1-3) by (simp add: getIdsWithFilters_def Let_def intersectAll_filter)
qed

end
